theory Spec2Isabelle
  imports Complex_Main
begin

section \<open>Numbers and conventions\<close>

text \<open>
  The program is TypeScript; every \<^verbatim>\<open>number\<close> of the source is modelled as a
  \<^typ>\<open>real\<close>, that is, by the exact arithmetic the IEEE doubles approximate. \<open>NaN\<close> and
  the infinities are not values of the model; where the source tests for them, or for a
  missing field, the field is an \<open>option\<close> and \<open>None\<close> stands for the value that fails
  the test. Record fields carry a short prefix (\<open>pos_x\<close> for \<^verbatim>\<open>position.x\<close>,
  \<open>cw_x\<close> and \<open>cs_x\<close> for \<^verbatim>\<open>obj.x\<close> in the two canvases) so that they do not
  capture variable names and do not clash between records.
\<close>

section \<open>Viewport: the pan and zoom state of the two canvas components\<close>

text \<open>
  Both \<^verbatim>\<open>CanvaworkComponent\<close> and \<^verbatim>\<open>CanvaspaceComponent\<close> keep the fields
  \<^verbatim>\<open>scale\<close>, \<^verbatim>\<open>offsetX\<close> and \<^verbatim>\<open>offsetY\<close>, all initialised to the identity view.
\<close>

record Viewport =
  scale :: real
  offsetX :: real
  offsetY :: real

definition initialViewport :: Viewport where
  "initialViewport = \<lparr>scale = 1, offsetX = 0, offsetY = 0\<rparr>"

text \<open>The part of \<^verbatim>\<open>getBoundingClientRect()\<close> the handlers read.\<close>

record DOMRect =
  rect_left :: real
  rect_top :: real
  rect_right :: real
  rect_bottom :: real

record WheelEvent =
  wheel_clientX :: real
  wheel_clientY :: real
  wheel_deltaY :: real

text \<open>
  The screen-to-world conversion is written inline in every handler as
  \<^verbatim>\<open>(mouseX - this.offsetX) / this.scale\<close>; the world-to-screen direction is the canvas
  transform \<^verbatim>\<open>translate(offsetX, offsetY); scale(scale, scale)\<close> of the draw routine.
\<close>

definition toWorld :: "real \<times> real \<Rightarrow> Viewport \<Rightarrow> real \<times> real" where
  "toWorld P v = ((fst P - offsetX v) / scale v, (snd P - offsetY v) / scale v)"

definition toScreen :: "real \<times> real \<Rightarrow> Viewport \<Rightarrow> real \<times> real" where
  "toScreen W v = (fst W * scale v + offsetX v, snd W * scale v + offsetY v)"

definition mousePoint :: "DOMRect \<Rightarrow> WheelEvent \<Rightarrow> real \<times> real" where
  "mousePoint rect ev = (wheel_clientX ev - rect_left rect, wheel_clientY ev - rect_top rect)"

subsection \<open>CanvaworkComponent\<close>

definition minScale :: real where "minScale = 1 / 10"
definition maxScale :: real where "maxScale = 10"
definition zoomIntensity :: real where "zoomIntensity = 1 / 10"

definition canvawork_onWheel :: "DOMRect \<Rightarrow> WheelEvent \<Rightarrow> Viewport \<Rightarrow> Viewport" where
  "canvawork_onWheel rect ev v =
    (let mouseX = wheel_clientX ev - rect_left rect;
         mouseY = wheel_clientY ev - rect_top rect;
         worldX = (mouseX - offsetX v) / scale v;
         worldY = (mouseY - offsetY v) / scale v;
         delta = - wheel_deltaY ev;
         zoomFactor = (if delta > 0 then 1 + zoomIntensity else 1 - zoomIntensity);
         newScale = scale v * zoomFactor;
         scale' = max minScale (min maxScale newScale)
     in \<lparr>scale = scale',
         offsetX = mouseX - worldX * scale',
         offsetY = mouseY - worldY * scale'\<rparr>)"

text \<open>\<^verbatim>\<open>zoomIn\<close> and \<^verbatim>\<open>zoomOut\<close> read the canvas element's width and height.\<close>

definition canvawork_zoomIn :: "real \<Rightarrow> real \<Rightarrow> Viewport \<Rightarrow> Viewport" where
  "canvawork_zoomIn canvasWidth canvasHeight v =
    (let centerX = canvasWidth / 2;
         centerY = canvasHeight / 2;
         worldX = (centerX - offsetX v) / scale v;
         worldY = (centerY - offsetY v) / scale v;
         scale' = min maxScale (scale v * (12 / 10))
     in \<lparr>scale = scale',
         offsetX = centerX - worldX * scale',
         offsetY = centerY - worldY * scale'\<rparr>)"

definition canvawork_zoomOut :: "real \<Rightarrow> real \<Rightarrow> Viewport \<Rightarrow> Viewport" where
  "canvawork_zoomOut canvasWidth canvasHeight v =
    (let centerX = canvasWidth / 2;
         centerY = canvasHeight / 2;
         worldX = (centerX - offsetX v) / scale v;
         worldY = (centerY - offsetY v) / scale v;
         scale' = max minScale (scale v / (12 / 10))
     in \<lparr>scale = scale',
         offsetX = centerX - worldX * scale',
         offsetY = centerY - worldY * scale'\<rparr>)"

subsection \<open>CanvaspaceComponent\<close>

text \<open>This component writes its bounds 0.1 and 5 as literals.\<close>

definition canvaspace_onMouseWheel :: "DOMRect \<Rightarrow> WheelEvent \<Rightarrow> Viewport \<Rightarrow> Viewport" where
  "canvaspace_onMouseWheel rect ev v =
    (let mouseX = wheel_clientX ev - rect_left rect;
         mouseY = wheel_clientY ev - rect_top rect;
         worldX = (mouseX - offsetX v) / scale v;
         worldY = (mouseY - offsetY v) / scale v;
         zoomFactor = (if wheel_deltaY ev > 0 then 9 / 10 else 11 / 10);
         newScale = max (1 / 10) (min 5 (scale v * zoomFactor))
     in \<lparr>scale = newScale,
         offsetX = mouseX - worldX * newScale,
         offsetY = mouseY - worldY * newScale\<rparr>)"

definition canvaspace_zoomIn :: "Viewport \<Rightarrow> Viewport" where
  "canvaspace_zoomIn v = v\<lparr>scale := min 5 (scale v * (12 / 10))\<rparr>"

definition canvaspace_zoomOut :: "Viewport \<Rightarrow> Viewport" where
  "canvaspace_zoomOut v = v\<lparr>scale := max (1 / 10) (scale v / (12 / 10))\<rparr>"

subsection \<open>Sequences of zoom operations\<close>

datatype CanvaworkOp =
    CwWheel DOMRect WheelEvent
  | CwZoomIn real real
  | CwZoomOut real real

fun canvawork_apply :: "Viewport \<Rightarrow> CanvaworkOp \<Rightarrow> Viewport" where
  "canvawork_apply v (CwWheel rect ev) = canvawork_onWheel rect ev v"
| "canvawork_apply v (CwZoomIn w h) = canvawork_zoomIn w h v"
| "canvawork_apply v (CwZoomOut w h) = canvawork_zoomOut w h v"

datatype CanvaspaceOp =
    CsWheel DOMRect WheelEvent
  | CsZoomIn
  | CsZoomOut

fun canvaspace_apply :: "Viewport \<Rightarrow> CanvaspaceOp \<Rightarrow> Viewport" where
  "canvaspace_apply v (CsWheel rect ev) = canvaspace_onMouseWheel rect ev v"
| "canvaspace_apply v CsZoomIn = canvaspace_zoomIn v"
| "canvaspace_apply v CsZoomOut = canvaspace_zoomOut v"

section \<open>Workflow canvas: items and arrow routing\<close>

record Position =
  pos_x :: real
  pos_y :: real

datatype ItemType = Action1 | Action2 | Continue | Reject

text \<open>
  \<^verbatim>\<open>WorkflowProperties\<close> is an open key-value bag. The code under study reads
  \<^verbatim>\<open>sequence\<close> and writes \<^verbatim>\<open>position\<close>, \<^verbatim>\<open>sequence\<close> and \<^verbatim>\<open>name\<close>; the other keys are
  copied around unread and are not part of the model. The type parameter is the type of a
  position value: \<^typ>\<open>Position\<close> for the objects the component holds in memory, and an
  optional \<open>JPosition\<close> (below) for items parsed from the persisted JSON, which need not
  respect the interface.
\<close>

record 'p WorkflowProperties =
  sequence :: "real option"
  prop_name :: "string option"
  prop_position :: 'p

record 'p DraggableItem =
  item_id :: real
  label :: string
  position :: 'p
  item_type :: ItemType
  properties :: "'p WorkflowProperties option"
  workflowId :: "string option"

datatype Direction = DirRight | DirLeft | DirUp | DirDown

text \<open>
  The values \<^verbatim>\<open>calculateArrowPath\<close> hands to \<^verbatim>\<open>createSmoothBezierPath\<close>: the two end
  points and the two direction tags chosen by the \<^verbatim>\<open>if\<close> cascade.
\<close>

record ArrowEnds =
  startX :: real
  startY :: real
  startDirection :: Direction
  endX :: real
  endY :: real
  endDirection :: Direction

definition boxW :: real where "boxW = 140"
definition boxH :: real where "boxH = 64"
definition arrowOffset :: real where "arrowOffset = 3"

text \<open>
  The side-selection cascade of \<^verbatim>\<open>calculateArrowPath\<close>, in the order of the source. The
  arguments are the \<^verbatim>\<open>position\<close> fields of the two items, the only fields the function
  reads.
\<close>

definition arrowEnds :: "Position \<Rightarrow> Position \<Rightarrow> ArrowEnds" where
  "arrowEnds fromP toP =
    (let fromCX = pos_x fromP + boxW / 2;
         fromCY = pos_y fromP + boxH / 2;
         toCenterX = pos_x toP + boxW / 2;
         toCenterY = pos_y toP + boxH / 2;
         dx = toCenterX - fromCX;
         dy = toCenterY - fromCY;
         horizontalGap = \<bar>dx\<bar>;
         verticalGap = \<bar>dy\<bar>
     in if dx > 0 \<and> horizontalGap > verticalGap * (5 / 10) then
          \<lparr>startX = pos_x fromP + boxW, startY = fromCY, startDirection = DirRight,
           endX = pos_x toP - arrowOffset, endY = toCenterY, endDirection = DirLeft\<rparr>
        else if dy > 0 \<and> verticalGap > horizontalGap * (3 / 10) then
          \<lparr>startX = fromCX, startY = pos_y fromP + boxH, startDirection = DirDown,
           endX = toCenterX, endY = pos_y toP - arrowOffset, endDirection = DirUp\<rparr>
        else if dy < 0 \<and> verticalGap > horizontalGap * (3 / 10) then
          \<lparr>startX = fromCX, startY = pos_y fromP, startDirection = DirUp,
           endX = toCenterX, endY = pos_y toP + boxH + arrowOffset, endDirection = DirDown\<rparr>
        else if dx < 0 then
          (if \<bar>dy\<bar> > 30 \<or> pos_y toP > pos_y fromP then
             \<lparr>startX = fromCX, startY = pos_y fromP + boxH, startDirection = DirDown,
              endX = pos_x toP + boxW + arrowOffset, endY = toCenterY, endDirection = DirRight\<rparr>
           else
             \<lparr>startX = fromCX, startY = pos_y fromP, startDirection = DirUp,
              endX = pos_x toP + boxW + arrowOffset, endY = toCenterY, endDirection = DirRight\<rparr>)
        else
          \<lparr>startX = pos_x fromP + boxW, startY = fromCY, startDirection = DirRight,
           endX = pos_x toP - arrowOffset, endY = toCenterY, endDirection = DirLeft\<rparr>)"

text \<open>The \<^verbatim>\<open>distance\<close> that \<^verbatim>\<open>calculateArrowPath\<close> computes from the same deltas.\<close>

definition centerDistance :: "Position \<Rightarrow> Position \<Rightarrow> real" where
  "centerDistance fromP toP =
    (let dx = (pos_x toP + boxW / 2) - (pos_x fromP + boxW / 2);
         dy = (pos_y toP + boxH / 2) - (pos_y fromP + boxH / 2)
     in sqrt (dx * dx + dy * dy))"

text \<open>
  The template literal at the end of \<^verbatim>\<open>createSmoothBezierPath\<close>. The conversion of a
  number to its decimal text is the JavaScript runtime's; it is the parameter \<open>fmt\<close>.
\<close>

definition pathTemplate ::
  "(real \<Rightarrow> string) \<Rightarrow> real \<Rightarrow> real \<Rightarrow> real \<Rightarrow> real \<Rightarrow> real \<Rightarrow> real \<Rightarrow> real \<Rightarrow> real \<Rightarrow> string" where
  "pathTemplate fmt sx sy c1x c1y c2x c2y ex ey =
    ''M'' @ fmt sx @ '','' @ fmt sy @ '' C'' @ fmt c1x @ '','' @ fmt c1y @ '' '' @
    fmt c2x @ '','' @ fmt c2y @ '' '' @ fmt ex @ '','' @ fmt ey"

definition createSmoothBezierPath ::
  "(real \<Rightarrow> string) \<Rightarrow> real \<Rightarrow> real \<Rightarrow> Direction \<Rightarrow> real \<Rightarrow> real \<Rightarrow> Direction \<Rightarrow> real \<Rightarrow> string" where
  "createSmoothBezierPath fmt sx sy sdir ex ey edir distance =
    (let controlDistance = min (distance * (4 / 10)) 150;
         minControlDist = 40;
         actualControlDistance = max controlDistance minControlDist;
         cp1 = (case sdir of
                  DirRight \<Rightarrow> (sx + actualControlDistance, sy)
                | DirLeft \<Rightarrow> (sx - actualControlDistance, sy)
                | DirDown \<Rightarrow> (sx, sy + actualControlDistance)
                | DirUp \<Rightarrow> (sx, sy - actualControlDistance));
         cp2 = (case edir of
                  DirRight \<Rightarrow> (ex + actualControlDistance, ey)
                | DirLeft \<Rightarrow> (ex - actualControlDistance, ey)
                | DirDown \<Rightarrow> (ex, ey + actualControlDistance)
                | DirUp \<Rightarrow> (ex, ey - actualControlDistance))
     in pathTemplate fmt sx sy (fst cp1) (snd cp1) (fst cp2) (snd cp2) ex ey)"

definition calculateArrowPath :: "(real \<Rightarrow> string) \<Rightarrow> Position \<Rightarrow> Position \<Rightarrow> string" where
  "calculateArrowPath fmt fromP toP =
    (let e = arrowEnds fromP toP
     in createSmoothBezierPath fmt (startX e) (startY e) (startDirection e)
          (endX e) (endY e) (endDirection e) (centerDistance fromP toP))"

subsection \<open>The routing policy as the specification words it\<close>

text \<open>
  The specification names sides and directions. \<open>sideAnchor\<close> is the centre of a side of a
  140 by 64 box, pushed outward by \<open>gap\<close>; \<open>dirVector\<close> is the unit vector of a direction
  tag in screen coordinates, where y grows downward.
\<close>

definition sideAnchor :: "Direction \<Rightarrow> Position \<Rightarrow> real \<Rightarrow> real \<times> real" where
  "sideAnchor side p gap =
    (case side of
       DirRight \<Rightarrow> (pos_x p + boxW + gap, pos_y p + boxH / 2)
     | DirLeft \<Rightarrow> (pos_x p - gap, pos_y p + boxH / 2)
     | DirDown \<Rightarrow> (pos_x p + boxW / 2, pos_y p + boxH + gap)
     | DirUp \<Rightarrow> (pos_x p + boxW / 2, pos_y p - gap))"

definition dirVector :: "Direction \<Rightarrow> real \<times> real" where
  "dirVector d =
    (case d of DirRight \<Rightarrow> (1, 0) | DirLeft \<Rightarrow> (-1, 0) | DirDown \<Rightarrow> (0, 1) | DirUp \<Rightarrow> (0, -1))"

text \<open>
  Rules a to e of the specification: the pair (exit side of the source, entry side of the
  target), first match wins.
\<close>

definition spec_sides :: "real \<Rightarrow> real \<Rightarrow> real \<Rightarrow> real \<Rightarrow> Direction \<times> Direction" where
  "spec_sides dx dy fromY toY =
    (if dx > 0 \<and> \<bar>dx\<bar> > (5 / 10) * \<bar>dy\<bar> then (DirRight, DirLeft)
     else if dy > 0 \<and> \<bar>dy\<bar> > (3 / 10) * \<bar>dx\<bar> then (DirDown, DirUp)
     else if dy < 0 \<and> \<bar>dy\<bar> > (3 / 10) * \<bar>dx\<bar> then (DirUp, DirDown)
     else if dx < 0 then ((if toY > fromY \<or> \<bar>dy\<bar> > 30 then DirDown else DirUp), DirRight)
     else (DirRight, DirLeft))"

definition clamp :: "real \<Rightarrow> real \<Rightarrow> real \<Rightarrow> real" where
  "clamp v lo hi = max (min v hi) lo"

definition centerDelta :: "Position \<Rightarrow> Position \<Rightarrow> real \<times> real" where
  "centerDelta fromP toP =
    ((pos_x toP + boxW / 2) - (pos_x fromP + boxW / 2),
     (pos_y toP + boxH / 2) - (pos_y fromP + boxH / 2))"

definition routeBySpec :: "Position \<Rightarrow> Position \<Rightarrow> ArrowEnds" where
  "routeBySpec fromP toP =
    (let d = centerDelta fromP toP;
         sides = spec_sides (fst d) (snd d) (pos_y fromP) (pos_y toP);
         s = sideAnchor (fst sides) fromP 0;
         e = sideAnchor (snd sides) toP arrowOffset
     in \<lparr>startX = fst s, startY = snd s, startDirection = fst sides,
         endX = fst e, endY = snd e, endDirection = snd sides\<rparr>)"

section \<open>Hit testing in the two generic canvases\<close>

text \<open>
  Both components scan \<^verbatim>\<open>this.objects\<close> from the last index down to 0 and return the
  first object whose test succeeds, or \<^verbatim>\<open>null\<close>. The counter of \<open>hitLoop\<close> is the
  source's \<^verbatim>\<open>i + 1\<close>, so every read \<open>objs ! i\<close> is in range.
\<close>

fun hitLoop :: "('a \<Rightarrow> bool) \<Rightarrow> 'a list \<Rightarrow> nat \<Rightarrow> 'a option" where
  "hitLoop P objs 0 = None"
| "hitLoop P objs (Suc i) = (if P (objs ! i) then Some (objs ! i) else hitLoop P objs i)"

subsection \<open>CanvaworkComponent: rectangle, circle, triangle\<close>

datatype CwShape = CwRectangle | CwCircle | CwTriangle

text \<open>
  \<^verbatim>\<open>width\<close>, \<^verbatim>\<open>height\<close> and \<^verbatim>\<open>radius\<close> are optional fields. A comparison with
  \<^verbatim>\<open>obj.x + undefined\<close> is false, so a rectangle or circle that lacks its size is never
  hit; the triangle test replaces a missing or zero size by 100 (\<^verbatim>\<open>obj.width || 100\<close>).
\<close>

record CwObject =
  cw_id :: real
  cw_type :: CwShape
  cw_x :: real
  cw_y :: real
  cw_width :: "real option"
  cw_height :: "real option"
  cw_radius :: "real option"
  cw_color :: string

definition orDefault :: "real option \<Rightarrow> real \<Rightarrow> real" where
  "orDefault v d = (case v of None \<Rightarrow> d | Some w \<Rightarrow> if w = 0 then d else w)"

definition canvawork_hit :: "real \<Rightarrow> real \<Rightarrow> CwObject \<Rightarrow> bool" where
  "canvawork_hit px py obj =
    (case cw_type obj of
       CwRectangle \<Rightarrow>
         (case cw_width obj of
            None \<Rightarrow> False
          | Some w \<Rightarrow>
              (case cw_height obj of
                 None \<Rightarrow> False
               | Some h \<Rightarrow> px \<ge> cw_x obj \<and> px \<le> cw_x obj + w \<and> py \<ge> cw_y obj \<and> py \<le> cw_y obj + h))
     | CwCircle \<Rightarrow>
         (let dx = px - cw_x obj;
              dy = py - cw_y obj;
              distance = sqrt (dx * dx + dy * dy)
          in case cw_radius obj of None \<Rightarrow> False | Some r \<Rightarrow> distance \<le> r)
     | CwTriangle \<Rightarrow>
         (let width = orDefault (cw_width obj) 100;
              height = orDefault (cw_height obj) 100
          in px \<ge> cw_x obj - width / 2 \<and> px \<le> cw_x obj + width / 2 \<and>
             py \<ge> cw_y obj \<and> py \<le> cw_y obj + height))"

definition canvawork_getObjectAtPosition :: "CwObject list \<Rightarrow> real \<Rightarrow> real \<Rightarrow> CwObject option" where
  "canvawork_getObjectAtPosition objects px py = hitLoop (canvawork_hit px py) objects (length objects)"

subsection \<open>CanvaspaceComponent: rectangle, circle, text\<close>

datatype CsShape = CsRectangle | CsCircle | CsText

record CsObject =
  cs_id :: string
  cs_x :: real
  cs_y :: real
  cs_width :: real
  cs_height :: real
  cs_type :: CsShape
  cs_color :: string
  cs_text :: "string option"

definition canvaspace_hit :: "real \<Rightarrow> real \<Rightarrow> CsObject \<Rightarrow> bool" where
  "canvaspace_hit px py obj =
    (case cs_type obj of
       CsRectangle \<Rightarrow>
         px \<ge> cs_x obj \<and> px \<le> cs_x obj + cs_width obj \<and>
         py \<ge> cs_y obj \<and> py \<le> cs_y obj + cs_height obj
     | CsCircle \<Rightarrow>
         (let centerX = cs_x obj + cs_width obj / 2;
              centerY = cs_y obj + cs_height obj / 2;
              radius = cs_width obj / 2;
              distance = sqrt ((px - centerX)\<^sup>2 + (py - centerY)\<^sup>2)
          in distance \<le> radius)
     | CsText \<Rightarrow>
         px \<ge> cs_x obj \<and> px \<le> cs_x obj + cs_width obj \<and>
         py \<ge> cs_y obj \<and> py \<le> cs_y obj + cs_height obj)"

definition canvaspace_getObjectAtPosition :: "CsObject list \<Rightarrow> real \<Rightarrow> real \<Rightarrow> CsObject option" where
  "canvaspace_getObjectAtPosition objects px py = hitLoop (canvaspace_hit px py) objects (length objects)"

text \<open>The containment predicates in the words of the specification.\<close>

definition inBox :: "real \<Rightarrow> real \<Rightarrow> real \<Rightarrow> real \<Rightarrow> real \<Rightarrow> real \<Rightarrow> bool" where
  "inBox px py x0 x1 y0 y1 = (x0 \<le> px \<and> px \<le> x1 \<and> y0 \<le> py \<and> py \<le> y1)"

definition euclid :: "real \<Rightarrow> real \<Rightarrow> real \<Rightarrow> real \<Rightarrow> real" where
  "euclid px py cx cy = sqrt ((px - cx)\<^sup>2 + (py - cy)\<^sup>2)"

section \<open>The persisted canvas state and its repair on load\<close>

text \<open>
  \<^verbatim>\<open>WorkflowserviceService\<close> keeps the canvas state in the browser's local storage as
  JSON. What \<^verbatim>\<open>JSON.parse\<close> returns need not respect the TypeScript interfaces, which is
  why \<^verbatim>\<open>autoFixCanvasState\<close> exists: a coordinate that is absent, not a number or
  \<open>NaN\<close> is \<open>None\<close>, and so is a \<^verbatim>\<open>position\<close>, an \<^verbatim>\<open>items\<close> or an \<^verbatim>\<open>arrows\<close> field
  that is absent or \<^verbatim>\<open>null\<close>.
\<close>

text \<open>
  The repository's second copy of the service keeps the state behind an HTTP endpoint; its
  \<^verbatim>\<open>autoFixCanvasState\<close> and \<^verbatim>\<open>generateSequentialArrows\<close> are the same but for the
  \<^verbatim>\<open>savePosition\<close> call of the repair loop, which it does not have. The model is the
  service of \<^verbatim>\<open>src/app/workflowservice.service.ts\<close>.
\<close>

record JPosition =
  jx :: "real option"
  jy :: "real option"

type_synonym StoredItem = "JPosition option DraggableItem"

record ArrowRef =
  fromId :: real
  toId :: real

record SavedState =
  state_id :: "string option"
  saved_items :: "StoredItem list option"
  saved_arrows :: "ArrowRef list option"
  saved_nextId :: real

text \<open>
  The two storage keys the service uses. \<open>ls_writable\<close> says whether
  \<^verbatim>\<open>localStorage.setItem\<close> succeeds; when it throws, \<^verbatim>\<open>saveToLocalStorage\<close> catches the
  exception, returns \<^verbatim>\<open>false\<close> and the storage keeps its content.
\<close>

record LocalStorage =
  ls_writable :: bool
  ls_positions :: "string \<rightharpoonup> JPosition"
  ls_canvas_state :: "SavedState option"

definition DEFAULT_START_X :: real where "DEFAULT_START_X = 120"
definition DEFAULT_START_Y :: real where "DEFAULT_START_Y = 120"
definition SPACE_INCREASE :: real where "SPACE_INCREASE = 300"

definition savePosition :: "LocalStorage \<Rightarrow> string \<Rightarrow> JPosition \<Rightarrow> LocalStorage" where
  "savePosition ls wid p =
    (if ls_writable ls then ls\<lparr>ls_positions := (ls_positions ls)(wid \<mapsto> p)\<rparr> else ls)"

definition saveCanvasState :: "LocalStorage \<Rightarrow> SavedState \<Rightarrow> SavedState option \<times> LocalStorage" where
  "saveCanvasState ls state =
    (if ls_writable ls then (Some state, ls\<lparr>ls_canvas_state := Some state\<rparr>) else (None, ls))"

definition isValidPosition :: "JPosition option \<Rightarrow> bool" where
  "isValidPosition p = (case p of None \<Rightarrow> False | Some q \<Rightarrow> jx q \<noteq> None \<and> jy q \<noteq> None)"

definition atOrigin :: "JPosition option \<Rightarrow> bool" where
  "atOrigin p = (case p of None \<Rightarrow> False | Some q \<Rightarrow> jx q = Some 0 \<and> jy q = Some 0)"

definition truthy :: "string option \<Rightarrow> bool" where
  "truthy w = (case w of None \<Rightarrow> False | Some t \<Rightarrow> t \<noteq> [])"

text \<open>
  The \<^verbatim>\<open>forEach\<close> over \<^verbatim>\<open>state.items\<close>: the repaired items in order, whether any item
  was repaired, and the storage after the \<^verbatim>\<open>savePosition\<close> calls.
\<close>

fun fixItems :: "nat \<Rightarrow> StoredItem list \<Rightarrow> LocalStorage \<Rightarrow> StoredItem list \<times> bool \<times> LocalStorage" where
  "fixItems index [] ls = ([], False, ls)"
| "fixItems index (item # rest) ls =
    (if \<not> isValidPosition (position item) \<or> atOrigin (position item) then
       (let defaultPosition = \<lparr>jx = Some (DEFAULT_START_X + real index * SPACE_INCREASE),
                               jy = Some DEFAULT_START_Y\<rparr>;
            fixedItem = item\<lparr>position := Some defaultPosition,
                             properties := map_option (\<lambda>pr. pr\<lparr>prop_position := Some defaultPosition\<rparr>)
                                             (properties item)\<rparr>;
            ls1 = (if truthy (workflowId fixedItem)
                   then savePosition ls (the (workflowId fixedItem)) defaultPosition else ls);
            r = fixItems (Suc index) rest ls1
        in (fixedItem # fst r, True, snd (snd r)))
     else
       (let r = fixItems (Suc index) rest ls
        in (item # fst r, fst (snd r), snd (snd r))))"

text \<open>
  \<^verbatim>\<open>a.properties?.sequence || a.id\<close>: the sequence number, or the id when the sequence is
  absent or 0. The comparator \<^verbatim>\<open>seqA - seqB\<close> orders by this key and
  \<^verbatim>\<open>Array.prototype.sort\<close> is stable, which is what \<^const>\<open>sort_key\<close> computes.
\<close>

definition sequenceKey :: "'p DraggableItem \<Rightarrow> real" where
  "sequenceKey a =
    (case properties a of
       None \<Rightarrow> item_id a
     | Some pr \<Rightarrow> (case sequence pr of None \<Rightarrow> item_id a | Some q \<Rightarrow> if q = 0 then item_id a else q))"

definition generateSequentialArrows :: "'p DraggableItem list \<Rightarrow> ArrowRef list" where
  "generateSequentialArrows its =
    (let sortedItems = sort_key sequenceKey its
     in map (\<lambda>i. \<lparr>fromId = item_id (sortedItems ! i), toId = item_id (sortedItems ! (i + 1))\<rparr>)
          [0 ..< length sortedItems - 1])"

definition arrowIsValid :: "'p DraggableItem list \<Rightarrow> ArrowRef \<Rightarrow> bool" where
  "arrowIsValid fixedItems arrow =
    (let fromExists = list_ex (\<lambda>item. item_id item = fromId arrow) fixedItems;
         toExists = list_ex (\<lambda>item. item_id item = toId arrow) fixedItems
     in fromExists \<and> toExists)"

definition autoFixCanvasState :: "LocalStorage \<Rightarrow> SavedState \<Rightarrow> SavedState \<times> LocalStorage" where
  "autoFixCanvasState ls state =
    (case saved_items state of
       None \<Rightarrow> (state, ls)
     | Some its \<Rightarrow>
         if its = [] then (state, ls)
         else
           (let r = fixItems 0 its ls;
                fixedItems = fst r;
                needsAutoFix1 = fst (snd r);
                ls1 = snd (snd r);
                arrows0 = (case saved_arrows state of None \<Rightarrow> [] | Some a \<Rightarrow> a);
                validArrows = filter (arrowIsValid fixedItems) arrows0;
                fixedArrows =
                  (if arrows0 = [] then generateSequentialArrows fixedItems
                   else if length validArrows \<noteq> length arrows0 then validArrows
                   else arrows0);
                needsAutoFix =
                  (if arrows0 = [] then True
                   else if length validArrows \<noteq> length arrows0 then True
                   else needsAutoFix1);
                fixedState = state\<lparr>saved_items := Some fixedItems, saved_arrows := Some fixedArrows\<rparr>
            in if needsAutoFix then (fixedState, snd (saveCanvasState ls1 fixedState))
               else (fixedState, ls1)))"

definition getCanvasState :: "LocalStorage \<Rightarrow> SavedState option \<times> LocalStorage" where
  "getCanvasState ls =
    (case ls_canvas_state ls of
       None \<Rightarrow> (None, ls)
     | Some state \<Rightarrow> (let r = autoFixCanvasState ls state in (Some (fst r), snd r)))"

text \<open>The chain of arrows over a list of ids: one arrow from each id to its successor.\<close>

fun chain :: "real list \<Rightarrow> ArrowRef list" where
  "chain (a # b # rest) = \<lparr>fromId = a, toId = b\<rparr> # chain (b # rest)"
| "chain _ = []"

section \<open>WorkstatusComponent: the workflow canvas\<close>

text \<open>
  The component holds its items as JavaScript objects that \<^verbatim>\<open>this.items\<close>, the arrows,
  \<^verbatim>\<open>draggedItem\<close>, \<^verbatim>\<open>lastCreatedItem\<close> and \<^verbatim>\<open>linkedButtons\<close> all reference, and it moves
  them by assigning to their fields. The model keeps the objects in a store: a reference
  is a number, \<open>heap\<close> maps a reference to the object's current fields, and \<open>allocated\<close>
  counts the objects created so far, so that it is the next fresh reference.
\<close>

type_synonym ref = nat

type_synonym Item = "Position DraggableItem"

record Arrow =
  arrow_from :: ref
  arrow_to :: ref
  arrow_path :: string
  strokeDasharray :: "string option"

text \<open>The fields of a \<^verbatim>\<open>WorkflowProcessItem\<close> that the modelled functions read.\<close>

record WorkflowProcessItem =
  wf_id :: string
  wf_sequence :: real
  wf_name :: string

record DragPreview =
  preview_label :: string
  preview_type :: ItemType
  preview_x :: real
  preview_y :: real

record Workstatus =
  heap :: "ref \<Rightarrow> Item"
  allocated :: nat
  items :: "ref list"
  arrows :: "Arrow list"
  workflowData :: "WorkflowProcessItem list"
  selectedItem :: "ref option"
  draggedItem :: "ref option"
  offset :: Position
  isDragging :: bool
  nextId :: real
  lastCreatedItem :: "ref option"
  linkedButtons :: "ref list"
  clickTimeout :: bool
  sequenceCounter :: real
  isBrowser :: bool
  toolbarDragActive :: bool
  toolbarDragLabel :: string
  toolbarDragType :: "ItemType option"
  dragPreview :: "DragPreview option"
  canvasOffset :: "(real \<times> real) option"
  scrollAtDragStart :: "(real \<times> real) option"
  storage :: LocalStorage

text \<open>
  What a handler reads from the page: the mouse position of the event and, when the view
  child exists, the scroll container with its scroll offsets, its bounding rectangle and
  the bounding rectangle of the \<^verbatim>\<open>.canvas\<close> element inside it (when there is one).
\<close>

record MouseEvent =
  mouse_clientX :: real
  mouse_clientY :: real

record ScrollContainer =
  scrollLeft :: real
  scrollTop :: real
  container_rect :: DOMRect
  canvas_rect :: "DOMRect option"

text \<open>\<^verbatim>\<open>Math.round\<close> rounds to the nearest integer, a tie towards plus infinity.\<close>

definition js_round :: "real \<Rightarrow> real" where
  "js_round v = of_int \<lfloor>v + 1 / 2\<rfloor>"

definition createArrow :: "ref \<Rightarrow> ref \<Rightarrow> Workstatus \<Rightarrow> Workstatus" where
  "createArrow from to s =
    (let isDottedLine = item_type (heap s from) = Action2 \<and>
                        (item_type (heap s to) = Continue \<or> item_type (heap s to) = Reject)
     in s\<lparr>arrows := arrows s @
           [\<lparr>arrow_from = from, arrow_to = to, arrow_path = [],
             strokeDasharray = (if isDottedLine then Some ''4,8'' else None)\<rparr>]\<rparr>)"

definition updateAllArrows :: "(real \<Rightarrow> string) \<Rightarrow> Workstatus \<Rightarrow> Workstatus" where
  "updateAllArrows fmt s =
    s\<lparr>arrows := map (\<lambda>arrow. arrow\<lparr>arrow_path :=
          calculateArrowPath fmt (position (heap s (arrow_from arrow)))
                                 (position (heap s (arrow_to arrow)))\<rparr>) (arrows s)\<rparr>"

text \<open>An in-memory item as \<^verbatim>\<open>JSON.stringify\<close> writes it.\<close>

definition toJPosition :: "Position \<Rightarrow> JPosition option" where
  "toJPosition p = Some \<lparr>jx = Some (pos_x p), jy = Some (pos_y p)\<rparr>"

definition toStoredItem :: "Item \<Rightarrow> StoredItem" where
  "toStoredItem it =
    \<lparr>item_id = item_id it, label = label it, position = toJPosition (position it),
     item_type = item_type it,
     properties = map_option (\<lambda>pr. \<lparr>sequence = sequence pr, prop_name = prop_name pr,
                                     prop_position = toJPosition (prop_position pr)\<rparr>) (properties it),
     workflowId = workflowId it\<rparr>"

subsection \<open>The component in \<^verbatim>\<open>src/app/workstatus/workstatus.component.ts\<close>\<close>

definition component_saveCanvasState :: "Workstatus \<Rightarrow> Workstatus" where
  "component_saveCanvasState s =
    (if \<not> isBrowser s then s
     else
       (let arrowData = map (\<lambda>arrow. \<lparr>fromId = item_id (heap s (arrow_from arrow)),
                                       toId = item_id (heap s (arrow_to arrow))\<rparr>) (arrows s);
            state = \<lparr>state_id = None,
                     saved_items = Some (map (\<lambda>r. toStoredItem (heap s r)) (items s)),
                     saved_arrows = Some arrowData,
                     saved_nextId = nextId s\<rparr>
        in s\<lparr>storage := snd (saveCanvasState (storage s) state)\<rparr>))"

definition generateDefaultProperties :: "string \<Rightarrow> Position \<Rightarrow> real \<Rightarrow> Position WorkflowProperties" where
  "generateDefaultProperties lbl p sq =
    \<lparr>sequence = Some sq, prop_name = Some lbl,
     prop_position = \<lparr>pos_x = pos_x p, pos_y = pos_y p\<rparr>\<rparr>"

definition createNewItemFromToolbar ::
  "(real \<Rightarrow> string) \<Rightarrow> ScrollContainer option \<Rightarrow> MouseEvent \<Rightarrow> string \<Rightarrow> ItemType \<Rightarrow> Workstatus \<Rightarrow> Workstatus" where
  "createNewItemFromToolbar fmt scrollContainerRef event lbl ty s =
    (case scrollContainerRef of
       None \<Rightarrow> s
     | Some scrollContainer \<Rightarrow>
         (let rect = container_rect scrollContainer;
              canvasX = mouse_clientX event - rect_left rect + scrollLeft scrollContainer;
              canvasY = mouse_clientY event - rect_top rect + scrollTop scrollContainer;
              snappedX = js_round (canvasX / 20) * 20;
              snappedY = js_round (canvasY / 20) * 20;
              pos = \<lparr>pos_x = snappedX, pos_y = snappedY\<rparr>;
              newProperties = generateDefaultProperties lbl pos (sequenceCounter s);
              newItem = \<lparr>item_id = nextId s, label = lbl, position = pos, item_type = ty,
                         properties = Some newProperties, workflowId = None\<rparr>;
              r = allocated s;
              s1 = s\<lparr>heap := (heap s)(r := newItem), allocated := Suc r,
                     items := items s @ [r],
                     sequenceCounter := sequenceCounter s + 1, nextId := nextId s + 1\<rparr>;
              s2 = (case lastCreatedItem s1 of None \<Rightarrow> s1 | Some l \<Rightarrow> createArrow l r s1);
              s3 = s2\<lparr>lastCreatedItem := Some r\<rparr>
          in component_saveCanvasState (updateAllArrows fmt s3)))"

text \<open>
  \<^verbatim>\<open>onMouseDown\<close> arms a 200 ms timer; \<open>onMouseDown_timeout\<close> is the body of its callback,
  which starts the drag of \<open>item\<close>.
\<close>

definition hasArrow :: "Workstatus \<Rightarrow> ref \<Rightarrow> ref \<Rightarrow> bool" where
  "hasArrow s item i =
    list_ex (\<lambda>a. item_id (heap s (arrow_from a)) = item_id (heap s item) \<and>
                  item_id (heap s (arrow_to a)) = item_id (heap s i)) (arrows s)"

definition onMouseDown_timeout ::
  "ScrollContainer option \<Rightarrow> MouseEvent \<Rightarrow> ref \<Rightarrow> Workstatus \<Rightarrow> Workstatus" where
  "onMouseDown_timeout scrollContainerRef event item s =
    (let s1 = s\<lparr>clickTimeout := False, selectedItem := Some item, draggedItem := Some item,
                 offset := \<lparr>pos_x = mouse_clientX event - pos_x (position (heap s item)),
                            pos_y = mouse_clientY event - pos_y (position (heap s item))\<rparr>\<rparr>;
         s2 = (case scrollContainerRef of
                 None \<Rightarrow> s1
               | Some scrollContainer \<Rightarrow>
                   (let s1a = (case canvas_rect scrollContainer of
                                 None \<Rightarrow> s1
                               | Some canvasRect \<Rightarrow>
                                   s1\<lparr>canvasOffset := Some
                                       (rect_left canvasRect - rect_left (container_rect scrollContainer),
                                        rect_top canvasRect - rect_top (container_rect scrollContainer))\<rparr>)
                    in s1a\<lparr>scrollAtDragStart :=
                             Some (scrollLeft scrollContainer, scrollTop scrollContainer)\<rparr>));
         linked =
           (if item_type (heap s item) = Action2 then
              (let continueBtn = List.find (\<lambda>i. item_type (heap s i) = Continue \<and> hasArrow s item i) (items s);
                   rejectBtn = List.find (\<lambda>i. item_type (heap s i) = Reject \<and> hasArrow s item i) (items s)
               in (case continueBtn of None \<Rightarrow> [] | Some c \<Rightarrow> [c]) @
                  (case rejectBtn of None \<Rightarrow> [] | Some c \<Rightarrow> [c]))
            else [])
     in s2\<lparr>linkedButtons := linked, isDragging := True\<rparr>)"

text \<open>One \<^verbatim>\<open>linkedBtn\<close> step of the loop in \<^verbatim>\<open>onMouseMove\<close>.\<close>

definition moveLinked :: "real \<Rightarrow> real \<Rightarrow> (ref \<Rightarrow> Item) \<Rightarrow> ref \<Rightarrow> (ref \<Rightarrow> Item)" where
  "moveLinked deltaX deltaY h linkedBtn =
    (let p = \<lparr>pos_x = pos_x (position (h linkedBtn)) + deltaX,
              pos_y = pos_y (position (h linkedBtn)) + deltaY\<rparr>
     in h(linkedBtn := (h linkedBtn)\<lparr>position := p,
            properties := map_option (\<lambda>pr. pr\<lparr>prop_position := p\<rparr>) (properties (h linkedBtn))\<rparr>))"

definition onMouseMove ::
  "(real \<Rightarrow> string) \<Rightarrow> ScrollContainer option \<Rightarrow> MouseEvent \<Rightarrow> Workstatus \<Rightarrow> Workstatus" where
  "onMouseMove fmt scrollContainerRef event s =
    (case draggedItem s of
       None \<Rightarrow> s
     | Some d \<Rightarrow>
         if \<not> isDragging s then s
         else
           (case scrollContainerRef of
              None \<Rightarrow> s
            | Some scrollContainer \<Rightarrow>
                (let adjusted =
                       (case canvasOffset s of
                          None \<Rightarrow> (mouse_clientX event, mouse_clientY event)
                        | Some co \<Rightarrow>
                            (case scrollAtDragStart s of
                               None \<Rightarrow> (mouse_clientX event, mouse_clientY event)
                             | Some st \<Rightarrow>
                                 (mouse_clientX event + (scrollLeft scrollContainer - fst st),
                                  mouse_clientY event + (scrollTop scrollContainer - snd st))));
                     newX = fst adjusted - pos_x (offset s);
                     newY = snd adjusted - pos_y (offset s);
                     snappedX = js_round (newX / 20) * 20;
                     snappedY = js_round (newY / 20) * 20;
                     deltaX = snappedX - pos_x (position (heap s d));
                     deltaY = snappedY - pos_y (position (heap s d));
                     p = \<lparr>pos_x = snappedX, pos_y = snappedY\<rparr>;
                     h1 = (heap s)(d := (heap s d)\<lparr>position := p,
                             properties := map_option (\<lambda>pr. pr\<lparr>prop_position := p\<rparr>)
                                             (properties (heap s d))\<rparr>);
                     h2 = foldl (moveLinked deltaX deltaY) h1 (linkedButtons s)
                 in updateAllArrows fmt (s\<lparr>heap := h2\<rparr>))))"

subsection \<open>The server-backed copy of the component\<close>

text \<open>
  The repository holds a second copy of \<^verbatim>\<open>WorkstatusComponent\<close>, which saves through
  HTTP instead of local storage. Its handlers differ: a drop goes through
  \<^verbatim>\<open>onToolbarDragEnd\<close> and \<^verbatim>\<open>createItemAtPosition\<close>, a drag through \<^verbatim>\<open>startDragging\<close>
  and its own \<^verbatim>\<open>onMouseMove\<close>. They are modelled with the prefix \<open>sv_\<close> on the same
  state. The HTTP request that \<^verbatim>\<open>saveCanvasState\<close> sends in this copy answers later and
  changes no field of the component; it is not part of the model.
\<close>

definition createPropertiesFromWorkflow :: "WorkflowProcessItem \<Rightarrow> Position \<Rightarrow> Position WorkflowProperties" where
  "createPropertiesFromWorkflow workflowItem p =
    \<lparr>sequence = Some (wf_sequence workflowItem), prop_name = Some (wf_name workflowItem),
     prop_position = \<lparr>pos_x = pos_x p, pos_y = pos_y p\<rparr>\<rparr>"

definition sv_getDefaultProperties ::
  "string \<Rightarrow> Position \<Rightarrow> Workstatus \<Rightarrow> Position WorkflowProperties \<times> Workstatus" where
  "sv_getDefaultProperties lbl p s =
    (case List.find (\<lambda>w. wf_sequence w = sequenceCounter s) (workflowData s) of
       Some matchingData \<Rightarrow>
         (createPropertiesFromWorkflow matchingData p, s\<lparr>sequenceCounter := sequenceCounter s + 1\<rparr>)
     | None \<Rightarrow>
         (generateDefaultProperties lbl p (sequenceCounter s),
          s\<lparr>sequenceCounter := sequenceCounter s + 1\<rparr>))"

definition sv_createItemAtPosition :: "(real \<Rightarrow> string) \<Rightarrow> real \<Rightarrow> real \<Rightarrow> Workstatus \<Rightarrow> Workstatus" where
  "sv_createItemAtPosition fmt cx cy s =
    (case toolbarDragType s of
       None \<Rightarrow> s
     | Some ty \<Rightarrow>
         if toolbarDragLabel s = [] then s
         else
           (let pos = \<lparr>pos_x = cx - 70, pos_y = cy - 32\<rparr>;
                pr = sv_getDefaultProperties (toolbarDragLabel s) pos (s\<lparr>nextId := nextId s + 1\<rparr>);
                newItem = \<lparr>item_id = nextId s, label = toolbarDragLabel s,
                           position = \<lparr>pos_x = pos_x pos, pos_y = pos_y pos\<rparr>, item_type = ty,
                           properties = Some (fst pr), workflowId = None\<rparr>;
                sa = snd pr;
                r = allocated sa;
                s1 = sa\<lparr>heap := (heap sa)(r := newItem), allocated := Suc r, items := items sa @ [r]\<rparr>;
                s2 = (case lastCreatedItem s1 of None \<Rightarrow> s1 | Some l \<Rightarrow> createArrow l r s1);
                s3 = s2\<lparr>linkedButtons := []\<rparr>;
                s4 =
                  (if toolbarDragLabel s = ''Action 2'' then
                     (let continuePos = \<lparr>pos_x = pos_x (position newItem) + 240,
                                          pos_y = pos_y (position newItem) - 70\<rparr>;
                          rejectPos = \<lparr>pos_x = pos_x (position newItem) + 240,
                                        pos_y = pos_y (position newItem) + 70\<rparr>;
                          cpr = sv_getDefaultProperties ''Continue'' continuePos (s3\<lparr>nextId := nextId s3 + 1\<rparr>);
                          continueBtn = \<lparr>item_id = nextId s3, label = ''Continue'',
                                          position = continuePos, item_type = Continue,
                                          properties = Some (fst cpr), workflowId = None\<rparr>;
                          sb = snd cpr;
                          rejectBtn = \<lparr>item_id = nextId sb, label = ''Reject'',
                                        position = rejectPos, item_type = Reject,
                                        properties = Some \<lparr>sequence = None, prop_name = None,
                                                           prop_position = rejectPos\<rparr>,
                                        workflowId = None\<rparr>;
                          rc = allocated sb;
                          rr = Suc rc;
                          sc = sb\<lparr>nextId := nextId sb + 1,
                                 heap := (heap sb)(rc := continueBtn, rr := rejectBtn),
                                 allocated := Suc rr, items := items sb @ [rc, rr]\<rparr>;
                          sd = createArrow r rr (createArrow r rc sc)
                      in sd\<lparr>linkedButtons := [rc, rr], lastCreatedItem := Some rc\<rparr>)
                   else s3\<lparr>lastCreatedItem := Some r\<rparr>)
            in updateAllArrows fmt s4))"

definition resetToolbarDrag :: "Workstatus \<Rightarrow> Workstatus" where
  "resetToolbarDrag s =
    s\<lparr>toolbarDragActive := False, toolbarDragLabel := [], toolbarDragType := None, dragPreview := None\<rparr>"

definition sv_onToolbarDragEnd ::
  "(real \<Rightarrow> string) \<Rightarrow> ScrollContainer option \<Rightarrow> MouseEvent \<Rightarrow> Workstatus \<Rightarrow> Workstatus" where
  "sv_onToolbarDragEnd fmt scrollContainerRef event s =
    (if \<not> toolbarDragActive s then s
     else
       (case scrollContainerRef of
          None \<Rightarrow> resetToolbarDrag s
        | Some scrollEl \<Rightarrow>
            (case canvas_rect scrollEl of
               None \<Rightarrow> resetToolbarDrag s
             | Some canvasRect \<Rightarrow>
                 (if mouse_clientX event \<ge> rect_left canvasRect \<and>
                     mouse_clientX event \<le> rect_right canvasRect \<and>
                     mouse_clientY event \<ge> rect_top canvasRect \<and>
                     mouse_clientY event \<le> rect_bottom canvasRect
                  then
                    resetToolbarDrag
                      (sv_createItemAtPosition fmt
                         (mouse_clientX event - rect_left canvasRect + scrollLeft scrollEl)
                         (mouse_clientY event - rect_top canvasRect + scrollTop scrollEl) s)
                  else resetToolbarDrag s))))"

definition sv_startDragging ::
  "ScrollContainer option \<Rightarrow> MouseEvent \<Rightarrow> ref \<Rightarrow> Workstatus \<Rightarrow> Workstatus" where
  "sv_startDragging scrollContainerRef event item s =
    (let s1 = s\<lparr>draggedItem := Some item, isDragging := False,
                 linkedButtons :=
                   (if item_type (heap s item) = Action2 then
                      filter (\<lambda>i. (item_type (heap s i) = Continue \<or> item_type (heap s i) = Reject) \<and>
                                   hasArrow s item i) (items s)
                    else [])\<rparr>
     in case scrollContainerRef of
          None \<Rightarrow> s1
        | Some scrollEl \<Rightarrow>
            (case canvas_rect scrollEl of
               None \<Rightarrow> s1
             | Some canvasRect \<Rightarrow>
                 (let mouseXInCanvas = mouse_clientX event - rect_left canvasRect + scrollLeft scrollEl;
                      mouseYInCanvas = mouse_clientY event - rect_top canvasRect + scrollTop scrollEl
                  in s1\<lparr>canvasOffset := Some (rect_left canvasRect, rect_top canvasRect),
                        scrollAtDragStart := Some (scrollLeft scrollEl, scrollTop scrollEl),
                        offset := \<lparr>pos_x = mouseXInCanvas - pos_x (position (heap s item)),
                                   pos_y = mouseYInCanvas - pos_y (position (heap s item))\<rparr>\<rparr>)))"

definition sv_onMouseMove ::
  "(real \<Rightarrow> string) \<Rightarrow> ScrollContainer option \<Rightarrow> MouseEvent \<Rightarrow> Workstatus \<Rightarrow> Workstatus" where
  "sv_onMouseMove fmt scrollContainerRef event s =
    (case draggedItem s of
       None \<Rightarrow> s
     | Some d \<Rightarrow>
         (case canvasOffset s of
            None \<Rightarrow> s
          | Some co \<Rightarrow>
              (case scrollAtDragStart s of
                 None \<Rightarrow> s
               | Some st \<Rightarrow>
                   (let s1 = (if \<not> isDragging s then s\<lparr>isDragging := True, clickTimeout := False\<rparr> else s)
                    in case scrollContainerRef of
                         None \<Rightarrow> s1
                       | Some scrollEl \<Rightarrow>
                           (let newX = mouse_clientX event - fst co - pos_x (offset s1)
                                       + (scrollLeft scrollEl - fst st);
                                newY = mouse_clientY event - snd co - pos_y (offset s1)
                                       + (scrollTop scrollEl - snd st);
                                deltaX = newX - pos_x (position (heap s1 d));
                                deltaY = newY - pos_y (position (heap s1 d));
                                p = \<lparr>pos_x = newX, pos_y = newY\<rparr>;
                                h1 = (heap s1)(d := (heap s1 d)\<lparr>position := p,
                                        properties := map_option (\<lambda>pr. pr\<lparr>prop_position := p\<rparr>)
                                                        (properties (heap s1 d))\<rparr>);
                                h2 = foldl (moveLinked deltaX deltaY) h1 (linkedButtons s1)
                            in updateAllArrows fmt (s1\<lparr>heap := h2\<rparr>))))))"

subsection \<open>Vocabulary of the drag and drop properties\<close>

definition multipleOf :: "real \<Rightarrow> real \<Rightarrow> bool" where
  "multipleOf g v = (of_int \<lfloor>v / g\<rfloor> * g = v)"

definition posOf :: "Workstatus \<Rightarrow> ref \<Rightarrow> real \<times> real" where
  "posOf s r = (pos_x (position (heap s r)), pos_y (position (heap s r)))"

definition relOffset :: "Workstatus \<Rightarrow> ref \<Rightarrow> ref \<Rightarrow> real \<times> real" where
  "relOffset s parent child =
    (fst (posOf s child) - fst (posOf s parent), snd (posOf s child) - snd (posOf s parent))"

text \<open>A sequence of mouse moves, each with what the page shows when it arrives.\<close>

fun moves ::
  "(real \<Rightarrow> string) \<Rightarrow> (ScrollContainer option \<times> MouseEvent) list \<Rightarrow> Workstatus \<Rightarrow> Workstatus" where
  "moves fmt [] s = s"
| "moves fmt (e # es) s = moves fmt es (onMouseMove fmt (fst e) (snd e) s)"

fun sv_moves ::
  "(real \<Rightarrow> string) \<Rightarrow> (ScrollContainer option \<times> MouseEvent) list \<Rightarrow> Workstatus \<Rightarrow> Workstatus" where
  "sv_moves fmt [] s = s"
| "sv_moves fmt (e # es) s = sv_moves fmt es (sv_onMouseMove fmt (fst e) (snd e) s)"

text \<open>
  \<^verbatim>\<open>onToolbarButtonMouseDown\<close> is the same in both copies: it records what is being
  dragged from the toolbar.
\<close>

definition onToolbarButtonMouseDown :: "MouseEvent \<Rightarrow> string \<Rightarrow> Workstatus \<Rightarrow> Workstatus" where
  "onToolbarButtonMouseDown event lbl s =
    (let buttonType = (if lbl = ''Action 1'' then Action1 else Action2)
     in s\<lparr>toolbarDragLabel := lbl, toolbarDragType := Some buttonType, toolbarDragActive := True,
           dragPreview := Some \<lparr>preview_label = lbl, preview_type = buttonType,
                                 preview_x = mouse_clientX event, preview_y = mouse_clientY event\<rparr>\<rparr>)"

definition dropPoint :: "ScrollContainer \<Rightarrow> MouseEvent \<Rightarrow> real \<times> real" where
  "dropPoint sc ev =
    (mouse_clientX ev - rect_left (container_rect sc) + scrollLeft sc,
     mouse_clientY ev - rect_top (container_rect sc) + scrollTop sc)"

subsection \<open>Concrete states for the examples\<close>

text \<open>
  The component as its field initialisers leave it, in a browser with an empty, writable
  local storage. No object exists yet; \<open>nullItem\<close> fills the unused cells of the store.
  \<open>exampleFmt\<close> stands for the number formatting in examples whose path strings are not
  looked at.
\<close>

definition nullItem :: Item where
  "nullItem = \<lparr>item_id = 0, label = [], position = \<lparr>pos_x = 0, pos_y = 0\<rparr>, item_type = Action1,
               properties = None, workflowId = None\<rparr>"

definition emptyStorage :: LocalStorage where
  "emptyStorage = \<lparr>ls_writable = True, ls_positions = Map.empty, ls_canvas_state = None\<rparr>"

definition initialWorkstatus :: Workstatus where
  "initialWorkstatus =
    \<lparr>heap = (\<lambda>r. nullItem), allocated = 0, items = [], arrows = [], workflowData = [],
     selectedItem = None, draggedItem = None, offset = \<lparr>pos_x = 0, pos_y = 0\<rparr>,
     isDragging = False, nextId = 1, lastCreatedItem = None, linkedButtons = [],
     clickTimeout = False, sequenceCounter = 1, isBrowser = True,
     toolbarDragActive = False, toolbarDragLabel = [], toolbarDragType = None,
     dragPreview = None, canvasOffset = None, scrollAtDragStart = None,
     storage = emptyStorage\<rparr>"

definition exampleFmt :: "real \<Rightarrow> string" where
  "exampleFmt v = ''#''"

definition examplePage :: ScrollContainer where
  "examplePage =
    \<lparr>scrollLeft = 0, scrollTop = 0,
     container_rect = \<lparr>rect_left = 0, rect_top = 0, rect_right = 1200, rect_bottom = 800\<rparr>,
     canvas_rect = Some \<lparr>rect_left = 0, rect_top = 0, rect_right = 3200, rect_bottom = 3200\<rparr>\<rparr>"

section \<open>Vocabulary and concrete states of the drag properties\<close>

text \<open>
  A linked child of an item is a Continue or Reject node that an arrow reaches from it,
  by the id comparison of the source. \<open>firstChild\<close> is the lookup
  \<^verbatim>\<open>this.items.find(...)\<close> of \<^verbatim>\<open>onMouseDown\<close> for one type. \<open>dragInv\<close> is what a drag
  keeps true: which object is dragged, which objects move with it, that these are
  listed once each and that the dragged object is not among them.
\<close>

definition isLinkedChild :: "Workstatus \<Rightarrow> ref \<Rightarrow> ref \<Rightarrow> bool" where
  "isLinkedChild s item c =
    ((item_type (heap s c) = Continue \<or> item_type (heap s c) = Reject) \<and> hasArrow s item c)"

definition firstChild :: "Workstatus \<Rightarrow> ref \<Rightarrow> ItemType \<Rightarrow> ref option" where
  "firstChild s item ty = List.find (\<lambda>i. item_type (heap s i) = ty \<and> hasArrow s item i) (items s)"

definition dragInv :: "Workstatus \<Rightarrow> ref \<Rightarrow> ref list \<Rightarrow> bool" where
  "dragInv s d cs = (draggedItem s = Some d \<and> linkedButtons s = cs \<and> distinct cs \<and> d \<notin> set cs)"

text \<open>
  An Action 2 node at (120, 120) with its Continue and Reject children 280 to the right
  and 45 above and below, as the graph construction lays them out, and the two dashed
  arrows to them.
\<close>

definition graphItem :: "real \<Rightarrow> string \<Rightarrow> ItemType \<Rightarrow> real \<Rightarrow> real \<Rightarrow> Item" where
  "graphItem i lbl ty px py =
    \<lparr>item_id = i, label = lbl, position = \<lparr>pos_x = px, pos_y = py\<rparr>, item_type = ty,
     properties = Some \<lparr>sequence = None, prop_name = None, prop_position = \<lparr>pos_x = px, pos_y = py\<rparr>\<rparr>,
     workflowId = None\<rparr>"

definition exampleGraph :: Workstatus where
  "exampleGraph =
    initialWorkstatus
      \<lparr>heap := (\<lambda>r. nullItem)
          (0 := graphItem 1 ''Approve'' Action2 120 120,
           1 := graphItem 2 ''Continue'' Continue 400 75,
           2 := graphItem 3 ''Reject'' Reject 400 165),
       allocated := 3, items := [0, 1, 2],
       arrows := [\<lparr>arrow_from = 0, arrow_to = 1, arrow_path = [], strokeDasharray = Some ''4,8''\<rparr>,
                  \<lparr>arrow_from = 0, arrow_to = 2, arrow_path = [], strokeDasharray = Some ''4,8''\<rparr>],
       nextId := 4, lastCreatedItem := Some 1\<rparr>"

text \<open>
  Every object is created fresh and pushed once, so the item list names each object once
  and only objects that exist.
\<close>

definition storeOk :: "Workstatus \<Rightarrow> bool" where
  "storeOk s = (distinct (items s) \<and> list_all (\<lambda>r. r < allocated s) (items s))"

definition mouseAt :: "real \<Rightarrow> real \<Rightarrow> MouseEvent" where
  "mouseAt mx my = \<lparr>mouse_clientX = mx, mouse_clientY = my\<rparr>"

definition toolbarArmed :: Workstatus where
  "toolbarArmed = onToolbarButtonMouseDown (mouseAt 10 10) ''Action 1'' initialWorkstatus"

section \<open>Vocabulary and concrete states of the persistence properties\<close>

text \<open>
  An item list is in order when every position passes \<^verbatim>\<open>isValidPosition\<close> and is not
  the origin, so that the repair loop leaves it alone. An arrow dangles when one of its
  two ids is the id of no item.
\<close>

definition positionsOk :: "StoredItem list \<Rightarrow> bool" where
  "positionsOk its =
    list_all (\<lambda>item. isValidPosition (position item) \<and> \<not> atOrigin (position item)) its"

definition dangling :: "'p DraggableItem list \<Rightarrow> ArrowRef \<Rightarrow> bool" where
  "dangling its a = (fromId a \<notin> item_id ` set its \<or> toId a \<notin> item_id ` set its)"

definition storedItem :: "real \<Rightarrow> real option \<Rightarrow> real \<Rightarrow> real \<Rightarrow> StoredItem" where
  "storedItem i sq px py =
    \<lparr>item_id = i, label = ''Action'', position = Some \<lparr>jx = Some px, jy = Some py\<rparr>,
     item_type = Action1,
     properties = Some \<lparr>sequence = sq, prop_name = Some ''Action'',
                        prop_position = Some \<lparr>jx = Some px, jy = Some py\<rparr>\<rparr>,
     workflowId = None\<rparr>"

definition savedExample :: "StoredItem list \<Rightarrow> ArrowRef list option \<Rightarrow> SavedState" where
  "savedExample its arrs =
    \<lparr>state_id = None, saved_items = Some its, saved_arrows = arrs, saved_nextId = 4\<rparr>"

definition storageWith :: "SavedState \<Rightarrow> LocalStorage" where
  "storageWith st = \<lparr>ls_writable = True, ls_positions = Map.empty, ls_canvas_state = Some st\<rparr>"

definition danglingItems :: "StoredItem list" where
  "danglingItems = [storedItem 1 (Some 1) 120 120, storedItem 2 (Some 2) 420 120]"

definition danglingArrows :: "ArrowRef list" where
  "danglingArrows = [\<lparr>fromId = 1, toId = 2\<rparr>, \<lparr>fromId = 2, toId = 9\<rparr>]"

definition danglingExample :: SavedState where
  "danglingExample = savedExample danglingItems (Some danglingArrows)"

definition unorderedExample :: "StoredItem list" where
  "unorderedExample =
    [storedItem 3 (Some 0) 0 0, storedItem 2 (Some 1) 420 120, storedItem 1 None 120 120]"

subsection \<open>Concrete shapes\<close>

definition rectBelow :: CwObject where
  "rectBelow = \<lparr>cw_id = 1, cw_type = CwRectangle, cw_x = 100, cw_y = 100,
                cw_width = Some 100, cw_height = Some 100, cw_radius = None, cw_color = ''#4CAF50''\<rparr>"

definition rectAbove :: CwObject where
  "rectAbove = \<lparr>cw_id = 4, cw_type = CwRectangle, cw_x = 150, cw_y = 150,
                cw_width = Some 100, cw_height = Some 100, cw_radius = None, cw_color = ''#E91E63''\<rparr>"

definition boxBelow :: CsObject where
  "boxBelow = \<lparr>cs_id = ''1'', cs_x = 100, cs_y = 100, cs_width = 100, cs_height = 100,
               cs_type = CsRectangle, cs_color = ''#3498db'', cs_text = None\<rparr>"

definition textAbove :: CsObject where
  "textAbove = \<lparr>cs_id = ''3'', cs_x = 150, cs_y = 150, cs_width = 150, cs_height = 50,
                cs_type = CsText, cs_color = ''#2ecc71'', cs_text = Some ''Hello Canvas!''\<rparr>"

definition sampleCircle :: CsObject where
  "sampleCircle = \<lparr>cs_id = ''2'', cs_x = 300, cs_y = 150, cs_width = 80, cs_height = 80,
                   cs_type = CsCircle, cs_color = ''#e74c3c'', cs_text = None\<rparr>"

section \<open>Properties of the viewport\<close>

lemma canvawork_onWheel_scale:
  "minScale \<le> scale (canvawork_onWheel rect ev v) \<and> scale (canvawork_onWheel rect ev v) \<le> maxScale"
  by (simp add: canvawork_onWheel_def Let_def minScale_def maxScale_def)

lemma canvawork_zoomIn_scale:
  "minScale \<le> scale v \<Longrightarrow> scale v \<le> maxScale \<Longrightarrow>
   minScale \<le> scale (canvawork_zoomIn w h v) \<and> scale (canvawork_zoomIn w h v) \<le> maxScale"
  by (simp add: canvawork_zoomIn_def Let_def minScale_def maxScale_def)

lemma canvawork_zoomOut_scale:
  "minScale \<le> scale v \<Longrightarrow> scale v \<le> maxScale \<Longrightarrow>
   minScale \<le> scale (canvawork_zoomOut w h v) \<and> scale (canvawork_zoomOut w h v) \<le> maxScale"
  by (simp add: canvawork_zoomOut_def Let_def minScale_def maxScale_def)

lemma canvawork_apply_scale:
  "minScale \<le> scale v \<and> scale v \<le> maxScale \<Longrightarrow>
   minScale \<le> scale (canvawork_apply v op) \<and> scale (canvawork_apply v op) \<le> maxScale"
  by (cases op) (simp_all add: canvawork_onWheel_scale canvawork_zoomIn_scale canvawork_zoomOut_scale)

lemma canvawork_run_scale:
  "minScale \<le> scale v \<and> scale v \<le> maxScale \<Longrightarrow>
   minScale \<le> scale (foldl canvawork_apply v ops) \<and> scale (foldl canvawork_apply v ops) \<le> maxScale"
proof (induction ops arbitrary: v)
  case Nil
  then show ?case by simp
next
  case (Cons op ops)
  from Cons.IH [OF canvawork_apply_scale [OF Cons.prems]] show ?case by simp
qed

lemma canvaspace_apply_scale:
  "1 / 10 \<le> scale v \<and> scale v \<le> 5 \<Longrightarrow>
   1 / 10 \<le> scale (canvaspace_apply v op) \<and> scale (canvaspace_apply v op) \<le> 5"
  by (cases op)
     (simp_all add: canvaspace_onMouseWheel_def canvaspace_zoomIn_def canvaspace_zoomOut_def Let_def)

lemma canvaspace_run_scale:
  "1 / 10 \<le> scale v \<and> scale v \<le> 5 \<Longrightarrow>
   1 / 10 \<le> scale (foldl canvaspace_apply v ops) \<and> scale (foldl canvaspace_apply v ops) \<le> 5"
proof (induction ops arbitrary: v)
  case Nil
  then show ?case by simp
next
  case (Cons op ops)
  from Cons.IH [OF canvaspace_apply_scale [OF Cons.prems]] show ?case by simp
qed

text \<open>
  Claim C2. For a viewport whose scale lies within the bounds of its component, one wheel
  step leaves the world point under the mouse where it was: converting the mouse point to
  world coordinates gives the same point before and after the step, and the old world
  point is drawn at the mouse point again. This covers the steps whose new scale is cut
  off at a bound, since the offsets are computed from the scale after the cut. Numbers are
  exact reals here, so the two sides are equal and no tolerance is needed.
\<close>

theorem zoom_anchoring:
  "(minScale \<le> scale v \<and> scale v \<le> maxScale \<longrightarrow>
      toWorld (mousePoint rect ev) (canvawork_onWheel rect ev v) = toWorld (mousePoint rect ev) v \<and>
      toScreen (toWorld (mousePoint rect ev) v) (canvawork_onWheel rect ev v) = mousePoint rect ev) \<and>
   (1 / 10 \<le> scale v \<and> scale v \<le> 5 \<longrightarrow>
      toWorld (mousePoint rect ev) (canvaspace_onMouseWheel rect ev v) = toWorld (mousePoint rect ev) v \<and>
      toScreen (toWorld (mousePoint rect ev) v) (canvaspace_onMouseWheel rect ev v) = mousePoint rect ev)"
  by (simp add: toWorld_def toScreen_def mousePoint_def canvawork_onWheel_def
      canvaspace_onMouseWheel_def Let_def minScale_def maxScale_def max_def min_def)

text \<open>
  The instance: a view at scale 5 and a wheel step towards the user at the mouse point
  (240, 110). CanvaworkComponent moves to scale 5.5; CanvaspaceComponent is cut off at its
  maximum 5. The world point under the mouse is (42, 26) before and after.
\<close>

theorem zoom_anchoring_witness:
  "minScale \<le> scale \<lparr>scale = 5, offsetX = 30, offsetY = - 20\<rparr> \<and>
   scale \<lparr>scale = 5, offsetX = 30, offsetY = - 20\<rparr> \<le> maxScale \<and>
   (1 / 10 :: real) \<le> scale \<lparr>scale = 5, offsetX = 30, offsetY = - 20\<rparr> \<and>
   scale \<lparr>scale = 5, offsetX = 30, offsetY = - 20\<rparr> \<le> (5 :: real) \<and>
   toWorld (240, 110)
     (canvawork_onWheel \<lparr>rect_left = 10, rect_top = 20, rect_right = 810, rect_bottom = 620\<rparr>
        \<lparr>wheel_clientX = 250, wheel_clientY = 130, wheel_deltaY = - 100\<rparr>
        \<lparr>scale = 5, offsetX = 30, offsetY = - 20\<rparr>) = (42, 26) \<and>
   toWorld (240, 110)
     (canvaspace_onMouseWheel \<lparr>rect_left = 10, rect_top = 20, rect_right = 810, rect_bottom = 620\<rparr>
        \<lparr>wheel_clientX = 250, wheel_clientY = 130, wheel_deltaY = - 100\<rparr>
        \<lparr>scale = 5, offsetX = 30, offsetY = - 20\<rparr>) = (42, 26) \<and>
   scale (canvaspace_onMouseWheel \<lparr>rect_left = 10, rect_top = 20, rect_right = 810, rect_bottom = 620\<rparr>
        \<lparr>wheel_clientX = 250, wheel_clientY = 130, wheel_deltaY = - 100\<rparr>
        \<lparr>scale = 5, offsetX = 30, offsetY = - 20\<rparr>) = 5"
  using zoom_anchoring [of "\<lparr>scale = 5, offsetX = 30, offsetY = - 20\<rparr>"
      "\<lparr>rect_left = 10, rect_top = 20, rect_right = 810, rect_bottom = 620\<rparr>"
      "\<lparr>wheel_clientX = 250, wheel_clientY = 130, wheel_deltaY = - 100\<rparr>"]
  by (simp add: minScale_def maxScale_def toWorld_def mousePoint_def canvaspace_onMouseWheel_def Let_def)

text \<open>
  Claim C4. From the initial viewport of scale 1, whatever wheel steps, zoom-in steps and
  zoom-out steps follow, in any number and order, the scale of CanvaworkComponent stays
  between 0.1 and 10 and the scale of CanvaspaceComponent between 0.1 and 5.
\<close>

theorem scale_clamp_invariant:
  "minScale = 1 / 10 \<and> maxScale = 10 \<and>
   minScale \<le> scale (foldl canvawork_apply initialViewport ops) \<and>
   scale (foldl canvawork_apply initialViewport ops) \<le> maxScale \<and>
   1 / 10 \<le> scale (foldl canvaspace_apply initialViewport ops') \<and>
   scale (foldl canvaspace_apply initialViewport ops') \<le> 5"
proof -
  have cw: "minScale \<le> scale initialViewport \<and> scale initialViewport \<le> maxScale"
    by (simp add: initialViewport_def minScale_def maxScale_def)
  have cs: "1 / 10 \<le> scale initialViewport \<and> scale initialViewport \<le> 5"
    by (simp add: initialViewport_def)
  from canvawork_run_scale [OF cw, of ops] canvaspace_run_scale [OF cs, of ops']
  show ?thesis by (simp add: minScale_def maxScale_def)
qed

text \<open>
  Claim C5, as the code has it. In CanvaworkComponent, on a viewport whose scale is within
  bounds, zoom-in multiplies the scale by 1.2 and zoom-out divides it by 1.2, the result
  is clamped to the bounds, and the world point under the centre of the canvas is drawn at
  the centre again afterwards. In CanvaspaceComponent the two controls change the scale in
  the same way and leave both offsets as they are.
\<close>

theorem discrete_zoom_steps:
  "(minScale \<le> scale v \<and> scale v \<le> maxScale \<longrightarrow>
      scale (canvawork_zoomIn w h v) = clamp (scale v * (12 / 10)) minScale maxScale \<and>
      scale (canvawork_zoomOut w h v) = clamp (scale v / (12 / 10)) minScale maxScale \<and>
      toScreen (toWorld (w / 2, h / 2) v) (canvawork_zoomIn w h v) = (w / 2, h / 2) \<and>
      toScreen (toWorld (w / 2, h / 2) v) (canvawork_zoomOut w h v) = (w / 2, h / 2)) \<and>
   (1 / 10 \<le> scale v \<and> scale v \<le> 5 \<longrightarrow>
      canvaspace_zoomIn v = v\<lparr>scale := clamp (scale v * (12 / 10)) (1 / 10) 5\<rparr> \<and>
      canvaspace_zoomOut v = v\<lparr>scale := clamp (scale v / (12 / 10)) (1 / 10) 5\<rparr>)"
  by (simp add: toWorld_def toScreen_def canvawork_zoomIn_def canvawork_zoomOut_def
      canvaspace_zoomIn_def canvaspace_zoomOut_def clamp_def Let_def minScale_def maxScale_def
      max_def min_def)

theorem discrete_zoom_steps_witness:
  "minScale \<le> scale \<lparr>scale = 5, offsetX = 30, offsetY = - 20\<rparr> \<and>
   scale \<lparr>scale = 5, offsetX = 30, offsetY = - 20\<rparr> \<le> maxScale \<and>
   (1 / 10 :: real) \<le> scale \<lparr>scale = 5, offsetX = 30, offsetY = - 20\<rparr> \<and>
   scale \<lparr>scale = 5, offsetX = 30, offsetY = - 20\<rparr> \<le> (5 :: real) \<and>
   canvawork_zoomIn 800 600 \<lparr>scale = 5, offsetX = 30, offsetY = - 20\<rparr> =
     \<lparr>scale = 6, offsetX = - 44, offsetY = - 84\<rparr> \<and>
   toScreen (toWorld (400, 300) \<lparr>scale = 5, offsetX = 30, offsetY = - 20\<rparr>)
     (canvawork_zoomIn 800 600 \<lparr>scale = 5, offsetX = 30, offsetY = - 20\<rparr>) = (400, 300) \<and>
   canvaspace_zoomIn \<lparr>scale = 5, offsetX = 30, offsetY = - 20\<rparr> =
     \<lparr>scale = 5, offsetX = 30, offsetY = - 20\<rparr> \<and>
   canvaspace_zoomOut \<lparr>scale = 5, offsetX = 30, offsetY = - 20\<rparr> =
     \<lparr>scale = 25 / 6, offsetX = 30, offsetY = - 20\<rparr>"
  using discrete_zoom_steps [of "\<lparr>scale = 5, offsetX = 30, offsetY = - 20\<rparr>" 800 600]
  by (simp add: minScale_def maxScale_def clamp_def canvawork_zoomIn_def Let_def)

text \<open>
  The claim as worded fails for CanvaspaceComponent. At the initial view of an 800 by 600
  canvas the world point under the centre (400, 300) is (400, 300); after zoom-in it is
  drawn at (480, 360), not at the centre.
\<close>

theorem discrete_zoom_center_counterexample:
  "toScreen (toWorld (800 / 2, 600 / 2) initialViewport) (canvaspace_zoomIn initialViewport) = (480, 360) \<and>
   toScreen (toWorld (800 / 2, 600 / 2) initialViewport) (canvaspace_zoomIn initialViewport)
     \<noteq> (800 / 2, 600 / 2)"
  by (simp add: toScreen_def toWorld_def initialViewport_def canvaspace_zoomIn_def)

section \<open>Properties of the arrow routing\<close>

lemma arrowEnds_routeBySpec: "arrowEnds fromP toP = routeBySpec fromP toP"
  by (simp add: arrowEnds_def routeBySpec_def centerDelta_def spec_sides_def sideAnchor_def
      Let_def mult.commute disj_commute)

lemma calculateArrowPath_template:
  "calculateArrowPath fmt fromP toP =
    (let e = arrowEnds fromP toP;
         d = clamp (centerDistance fromP toP * (4 / 10)) 40 150;
         u = dirVector (startDirection e);
         w = dirVector (endDirection e)
     in pathTemplate fmt (startX e) (startY e)
          (startX e + d * fst u) (startY e + d * snd u)
          (endX e + d * fst w) (endY e + d * snd w)
          (endX e) (endY e))"
  by (simp add: calculateArrowPath_def createSmoothBezierPath_def Let_def clamp_def dirVector_def
      split: Direction.splits)

lemma arrowEnds_right:
  "fst (centerDelta fromP toP) > 0 \<Longrightarrow>
   \<bar>fst (centerDelta fromP toP)\<bar> > (5 / 10) * \<bar>snd (centerDelta fromP toP)\<bar> \<Longrightarrow>
   (startX (arrowEnds fromP toP), startY (arrowEnds fromP toP)) = sideAnchor DirRight fromP 0 \<and>
   startDirection (arrowEnds fromP toP) = DirRight \<and>
   (endX (arrowEnds fromP toP), endY (arrowEnds fromP toP)) = sideAnchor DirLeft toP arrowOffset \<and>
   endDirection (arrowEnds fromP toP) = DirLeft"
  by (simp add: arrowEnds_def centerDelta_def sideAnchor_def Let_def)

lemma arrowEnds_below:
  "fst (centerDelta fromP toP) = 0 \<Longrightarrow> snd (centerDelta fromP toP) > 0 \<Longrightarrow>
   (startX (arrowEnds fromP toP), startY (arrowEnds fromP toP)) = sideAnchor DirDown fromP 0 \<and>
   startDirection (arrowEnds fromP toP) = DirDown \<and>
   (endX (arrowEnds fromP toP), endY (arrowEnds fromP toP)) = sideAnchor DirUp toP arrowOffset \<and>
   endDirection (arrowEnds fromP toP) = DirUp"
  by (simp add: arrowEnds_def centerDelta_def sideAnchor_def Let_def)

lemma arrowEnds_left_never:
  "fst (centerDelta fromP toP) < 0 \<Longrightarrow>
   endDirection (arrowEnds fromP toP) \<noteq> DirLeft \<and>
   (endX (arrowEnds fromP toP), endY (arrowEnds fromP toP)) \<noteq> sideAnchor DirLeft toP arrowOffset \<and>
   pos_x toP < endX (arrowEnds fromP toP)"
  by (simp add: arrowEnds_def centerDelta_def sideAnchor_def Let_def boxW_def boxH_def arrowOffset_def)

lemma arrowEnds_left_flat:
  "fst (centerDelta fromP toP) < 0 \<Longrightarrow>
   \<bar>snd (centerDelta fromP toP)\<bar> \<le> (3 / 10) * \<bar>fst (centerDelta fromP toP)\<bar> \<Longrightarrow>
   endDirection (arrowEnds fromP toP) = DirRight \<and>
   (endX (arrowEnds fromP toP), endY (arrowEnds fromP toP)) = sideAnchor DirRight toP arrowOffset \<and>
   endX (arrowEnds fromP toP) = pos_x toP + boxW + arrowOffset"
  by (simp add: arrowEnds_def centerDelta_def sideAnchor_def Let_def)

lemma calculateArrowPath_ends:
  "\<exists>c1x c1y c2x c2y.
      calculateArrowPath fmt fromP toP =
        pathTemplate fmt (startX (arrowEnds fromP toP)) (startY (arrowEnds fromP toP))
          c1x c1y c2x c2y (endX (arrowEnds fromP toP)) (endY (arrowEnds fromP toP))"
  unfolding calculateArrowPath_template Let_def by blast

text \<open>
  Claim C1, as the code has it. With (dx, dy) the centre-to-centre delta of two 140 by 64
  boxes:
  if dx > 0 and |dx| > 0.5 |dy|, the path starts at the centre of the source's right side
  and ends 3 units off the centre of the target's left side;
  if dx = 0 and dy > 0, it starts at the centre of the source's bottom side and ends 3
  units off the centre of the target's top side;
  if dx < 0, the path never ends on the target's left side: the end point lies strictly to
  the right of the target's left edge and the entry direction is not left;
  if dx < 0 and |dy| <= 0.3 |dx|, so that neither vertical rule applies, the path enters
  from the right, ending at x = target.x + boxW + arrowOffset.
  The cascade of the code is the priority list a to e of the specification, with the
  ratios 0.5 and 0.3, first match wins; and the emitted string starts at the chosen start
  point and ends at the chosen end point.
\<close>

theorem side_selection_priority:
  "(let d = centerDelta fromP toP;
        dx = fst d;
        dy = snd d;
        e = arrowEnds fromP toP
    in (dx > 0 \<and> \<bar>dx\<bar> > (5 / 10) * \<bar>dy\<bar> \<longrightarrow>
          (startX e, startY e) = sideAnchor DirRight fromP 0 \<and> startDirection e = DirRight \<and>
          (endX e, endY e) = sideAnchor DirLeft toP arrowOffset \<and> endDirection e = DirLeft) \<and>
       (dx = 0 \<and> dy > 0 \<longrightarrow>
          (startX e, startY e) = sideAnchor DirDown fromP 0 \<and> startDirection e = DirDown \<and>
          (endX e, endY e) = sideAnchor DirUp toP arrowOffset \<and> endDirection e = DirUp) \<and>
       (dx < 0 \<longrightarrow>
          endDirection e \<noteq> DirLeft \<and> (endX e, endY e) \<noteq> sideAnchor DirLeft toP arrowOffset \<and>
          pos_x toP < endX e) \<and>
       (dx < 0 \<and> \<bar>dy\<bar> \<le> (3 / 10) * \<bar>dx\<bar> \<longrightarrow>
          endDirection e = DirRight \<and> (endX e, endY e) = sideAnchor DirRight toP arrowOffset \<and>
          endX e = pos_x toP + boxW + arrowOffset) \<and>
       e = routeBySpec fromP toP \<and>
       (\<exists>c1x c1y c2x c2y.
          calculateArrowPath fmt fromP toP =
            pathTemplate fmt (startX e) (startY e) c1x c1y c2x c2y (endX e) (endY e)))"
  unfolding Let_def
  using arrowEnds_right [of fromP toP] arrowEnds_below [of fromP toP]
    arrowEnds_left_never [of fromP toP] arrowEnds_left_flat [of fromP toP]
    arrowEnds_routeBySpec [of fromP toP] calculateArrowPath_ends [of fmt fromP toP]
  by blast

text \<open>
  The three examples of the specification, with the source box at (0, 0): a target at
  (300, 0) is left by the right side and entered on the left; a target at (0, 300) is left
  by the bottom and entered on the top; a target at (-300, 0) is entered from the right,
  at x = -157.
\<close>

theorem side_selection_priority_witness:
  "fst (centerDelta \<lparr>pos_x = 0, pos_y = 0\<rparr> \<lparr>pos_x = 300, pos_y = 0\<rparr>) > 0 \<and>
   \<bar>fst (centerDelta \<lparr>pos_x = 0, pos_y = 0\<rparr> \<lparr>pos_x = 300, pos_y = 0\<rparr>)\<bar>
     > (5 / 10) * \<bar>snd (centerDelta \<lparr>pos_x = 0, pos_y = 0\<rparr> \<lparr>pos_x = 300, pos_y = 0\<rparr>)\<bar> \<and>
   arrowEnds \<lparr>pos_x = 0, pos_y = 0\<rparr> \<lparr>pos_x = 300, pos_y = 0\<rparr> =
     \<lparr>startX = 140, startY = 32, startDirection = DirRight,
      endX = 297, endY = 32, endDirection = DirLeft\<rparr> \<and>
   fst (centerDelta \<lparr>pos_x = 0, pos_y = 0\<rparr> \<lparr>pos_x = 0, pos_y = 300\<rparr>) = 0 \<and>
   snd (centerDelta \<lparr>pos_x = 0, pos_y = 0\<rparr> \<lparr>pos_x = 0, pos_y = 300\<rparr>) > 0 \<and>
   arrowEnds \<lparr>pos_x = 0, pos_y = 0\<rparr> \<lparr>pos_x = 0, pos_y = 300\<rparr> =
     \<lparr>startX = 70, startY = 64, startDirection = DirDown,
      endX = 70, endY = 297, endDirection = DirUp\<rparr> \<and>
   fst (centerDelta \<lparr>pos_x = 0, pos_y = 0\<rparr> \<lparr>pos_x = - 300, pos_y = 0\<rparr>) < 0 \<and>
   \<bar>snd (centerDelta \<lparr>pos_x = 0, pos_y = 0\<rparr> \<lparr>pos_x = - 300, pos_y = 0\<rparr>)\<bar>
     \<le> (3 / 10) * \<bar>fst (centerDelta \<lparr>pos_x = 0, pos_y = 0\<rparr> \<lparr>pos_x = - 300, pos_y = 0\<rparr>)\<bar> \<and>
   arrowEnds \<lparr>pos_x = 0, pos_y = 0\<rparr> \<lparr>pos_x = - 300, pos_y = 0\<rparr> =
     \<lparr>startX = 70, startY = 0, startDirection = DirUp,
      endX = - 157, endY = 32, endDirection = DirRight\<rparr>"
  using side_selection_priority [of "\<lparr>pos_x = 0, pos_y = 0\<rparr>" "\<lparr>pos_x = 300, pos_y = 0\<rparr>" exampleFmt]
    side_selection_priority [of "\<lparr>pos_x = 0, pos_y = 0\<rparr>" "\<lparr>pos_x = 0, pos_y = 300\<rparr>" exampleFmt]
    side_selection_priority [of "\<lparr>pos_x = 0, pos_y = 0\<rparr>" "\<lparr>pos_x = - 300, pos_y = 0\<rparr>" exampleFmt]
  by (simp add: centerDelta_def arrowEnds_def Let_def boxW_def boxH_def arrowOffset_def)

text \<open>
  The claim as worded says that every target to the left (dx < 0) is entered from the
  right. A target at (-300, 300) is to the left and below; rule b wins before rule d, and
  the path ends on top of the target at (-230, 297), not at x = -157.
\<close>

theorem side_selection_counterexample:
  "fst (centerDelta \<lparr>pos_x = 0, pos_y = 0\<rparr> \<lparr>pos_x = - 300, pos_y = 300\<rparr>) < 0 \<and>
   arrowEnds \<lparr>pos_x = 0, pos_y = 0\<rparr> \<lparr>pos_x = - 300, pos_y = 300\<rparr> =
     \<lparr>startX = 70, startY = 64, startDirection = DirDown,
      endX = - 230, endY = 297, endDirection = DirUp\<rparr> \<and>
   endX (arrowEnds \<lparr>pos_x = 0, pos_y = 0\<rparr> \<lparr>pos_x = - 300, pos_y = 300\<rparr>)
     \<noteq> pos_x \<lparr>pos_x = - 300, pos_y = 300\<rparr> + boxW + arrowOffset"
  by (simp add: centerDelta_def arrowEnds_def Let_def boxW_def boxH_def arrowOffset_def)

text \<open>
  Claim C3. For every pair of boxes the emitted path is the string
  M start C cp1 cp2 end, where the control distance d is the centre-to-centre Euclidean
  distance times 0.4, clamped to at most 150 and at least 40, cp1 is the start point moved
  by d along the exit direction and cp2 is the end point moved by d along the entry
  direction. The same holds for \<^verbatim>\<open>createSmoothBezierPath\<close> on any end points, directions
  and distance.
\<close>

theorem bezier_control_points:
  "calculateArrowPath fmt fromP toP =
     (let e = arrowEnds fromP toP;
          d = max (min (centerDistance fromP toP * (4 / 10)) 150) 40;
          u = dirVector (startDirection e);
          w = dirVector (endDirection e)
      in ''M'' @ fmt (startX e) @ '','' @ fmt (startY e) @
         '' C'' @ fmt (startX e + d * fst u) @ '','' @ fmt (startY e + d * snd u) @
         '' '' @ fmt (endX e + d * fst w) @ '','' @ fmt (endY e + d * snd w) @
         '' '' @ fmt (endX e) @ '','' @ fmt (endY e)) \<and>
   centerDistance fromP toP = sqrt ((fst (centerDelta fromP toP))\<^sup>2 + (snd (centerDelta fromP toP))\<^sup>2) \<and>
   createSmoothBezierPath fmt sx sy sdir ex ey edir len =
     (let d = clamp (len * (4 / 10)) 40 150
      in pathTemplate fmt sx sy (sx + d * fst (dirVector sdir)) (sy + d * snd (dirVector sdir))
           (ex + d * fst (dirVector edir)) (ey + d * snd (dirVector edir)) ex ey) \<and>
   clamp v 40 150 = max (min v 150) 40 \<and> clamp v 40 150 = min (max v 40) 150 \<and>
   40 \<le> clamp v 40 150 \<and> clamp v 40 150 \<le> 150"
proof -
  have 1: "centerDistance fromP toP = sqrt ((fst (centerDelta fromP toP))\<^sup>2 + (snd (centerDelta fromP toP))\<^sup>2)"
    by (simp add: centerDistance_def centerDelta_def Let_def power2_eq_square)
  have 2: "createSmoothBezierPath fmt sx sy sdir ex ey edir len =
     (let d = clamp (len * (4 / 10)) 40 150
      in pathTemplate fmt sx sy (sx + d * fst (dirVector sdir)) (sy + d * snd (dirVector sdir))
           (ex + d * fst (dirVector edir)) (ey + d * snd (dirVector edir)) ex ey)"
    by (simp add: createSmoothBezierPath_def Let_def clamp_def dirVector_def split: Direction.splits)
  have 3: "clamp v 40 150 = max (min v 150) 40 \<and> clamp v 40 150 = min (max v 40) 150 \<and>
      40 \<le> clamp v 40 150 \<and> clamp v 40 150 \<le> 150"
    by (simp add: clamp_def max_def min_def)
  have 4: "calculateArrowPath fmt fromP toP =
     (let e = arrowEnds fromP toP;
          d = max (min (centerDistance fromP toP * (4 / 10)) 150) 40;
          u = dirVector (startDirection e);
          w = dirVector (endDirection e)
      in ''M'' @ fmt (startX e) @ '','' @ fmt (startY e) @
         '' C'' @ fmt (startX e + d * fst u) @ '','' @ fmt (startY e + d * snd u) @
         '' '' @ fmt (endX e + d * fst w) @ '','' @ fmt (endY e + d * snd w) @
         '' '' @ fmt (endX e) @ '','' @ fmt (endY e))"
    by (simp add: calculateArrowPath_template Let_def clamp_def pathTemplate_def)
  from 1 2 3 4 show ?thesis by blast
qed

section \<open>Properties of hit testing\<close>

lemma sqrt_le_iff_sq: "0 \<le> r \<Longrightarrow> (sqrt a \<le> r) = (a \<le> r\<^sup>2)"
  by (metis real_sqrt_le_iff real_sqrt_abs abs_of_nonneg)

lemma hitLoop_find: "n \<le> length objs \<Longrightarrow> hitLoop P objs n = List.find P (rev (take n objs))"
proof (induction n)
  case 0
  then show ?case by simp
next
  case (Suc n)
  then have "take (Suc n) objs = take n objs @ [objs ! n]"
    by (simp add: take_Suc_conv_app_nth)
  with Suc show ?case by simp
qed

lemma find_append_cases:
  "List.find P (xs @ ys) = (case List.find P xs of None \<Rightarrow> List.find P ys | Some v \<Rightarrow> Some v)"
  by (induction xs) simp_all

lemma find_rev_topmost:
  "P t \<Longrightarrow> \<not> list_ex P upper \<Longrightarrow> List.find P (rev (lower @ t # upper)) = Some t"
proof -
  assume t: "P t" and a: "\<not> list_ex P upper"
  from a have "List.find P (rev upper) = None"
    by (simp add: find_None_iff list_ex_iff)
  with t show ?thesis by (simp add: find_append_cases)
qed

lemma find_rev_None: "(List.find P (rev objs) = None) = (\<not> list_ex P objs)"
  by (auto simp add: find_None_iff list_ex_iff)

text \<open>
  Claim C6, as the code has it. In both canvases \<^verbatim>\<open>getObjectAtPosition\<close> returns the first
  object, going from the last added to the first, whose containment test holds at the
  query point: an object that is hit and has nothing hit above it is the result, whatever
  lies below it, and the result is \<^verbatim>\<open>null\<close> exactly when no object is hit. The tests
  are: rectangle and text, the box [x, x + width] by [y, y + height]; circle in
  CanvaworkComponent, Euclidean distance from (x, y) at most radius; circle in
  CanvaspaceComponent, Euclidean distance from the centre (x + width/2, y + height/2) of
  its box at most width/2; triangle, the box [x - w/2, x + w/2] by [y, y + h], where w and
  h are the width and the height, or 100 when the field is absent or 0.
\<close>

theorem hit_test_topmost:
  "canvawork_getObjectAtPosition objs px py = List.find (canvawork_hit px py) (rev objs) \<and>
   canvaspace_getObjectAtPosition sobjs px py = List.find (canvaspace_hit px py) (rev sobjs) \<and>
   (canvawork_hit px py t \<and> \<not> list_ex (canvawork_hit px py) upper \<longrightarrow>
      canvawork_getObjectAtPosition (lower @ t # upper) px py = Some t) \<and>
   (canvaspace_hit px py st \<and> \<not> list_ex (canvaspace_hit px py) supper \<longrightarrow>
      canvaspace_getObjectAtPosition (slower @ st # supper) px py = Some st) \<and>
   (canvawork_getObjectAtPosition objs px py = None) = (\<not> list_ex (canvawork_hit px py) objs) \<and>
   (canvaspace_getObjectAtPosition sobjs px py = None) = (\<not> list_ex (canvaspace_hit px py) sobjs) \<and>
   canvawork_hit px py (obj\<lparr>cw_type := CwRectangle, cw_width := Some w, cw_height := Some h\<rparr>) =
     inBox px py (cw_x obj) (cw_x obj + w) (cw_y obj) (cw_y obj + h) \<and>
   canvawork_hit px py (obj\<lparr>cw_type := CwCircle, cw_radius := Some r\<rparr>) =
     (euclid px py (cw_x obj) (cw_y obj) \<le> r) \<and>
   canvawork_hit px py (obj\<lparr>cw_type := CwTriangle\<rparr>) =
     inBox px py (cw_x obj - orDefault (cw_width obj) 100 / 2) (cw_x obj + orDefault (cw_width obj) 100 / 2)
       (cw_y obj) (cw_y obj + orDefault (cw_height obj) 100) \<and>
   orDefault (Some w) 100 = (if w = 0 then 100 else w) \<and> orDefault None 100 = 100 \<and>
   canvawork_hit px py (obj\<lparr>cw_type := CwRectangle, cw_width := None\<rparr>) = False \<and>
   canvawork_hit px py (obj\<lparr>cw_type := CwRectangle, cw_height := None\<rparr>) = False \<and>
   canvawork_hit px py (obj\<lparr>cw_type := CwCircle, cw_radius := None\<rparr>) = False \<and>
   canvaspace_hit px py (sobj\<lparr>cs_type := CsRectangle\<rparr>) =
     inBox px py (cs_x sobj) (cs_x sobj + cs_width sobj) (cs_y sobj) (cs_y sobj + cs_height sobj) \<and>
   canvaspace_hit px py (sobj\<lparr>cs_type := CsText\<rparr>) =
     inBox px py (cs_x sobj) (cs_x sobj + cs_width sobj) (cs_y sobj) (cs_y sobj + cs_height sobj) \<and>
   canvaspace_hit px py (sobj\<lparr>cs_type := CsCircle\<rparr>) =
     (euclid px py (cs_x sobj + cs_width sobj / 2) (cs_y sobj + cs_height sobj / 2) \<le> cs_width sobj / 2)"
proof -
  have cw: "canvawork_getObjectAtPosition xs px py = List.find (canvawork_hit px py) (rev xs)" for xs
    by (simp add: canvawork_getObjectAtPosition_def hitLoop_find)
  have cs: "canvaspace_getObjectAtPosition xs px py = List.find (canvaspace_hit px py) (rev xs)" for xs
    by (simp add: canvaspace_getObjectAtPosition_def hitLoop_find)
  have preds:
    "canvawork_hit px py (obj\<lparr>cw_type := CwRectangle, cw_width := Some w, cw_height := Some h\<rparr>) =
       inBox px py (cw_x obj) (cw_x obj + w) (cw_y obj) (cw_y obj + h)"
    "canvawork_hit px py (obj\<lparr>cw_type := CwCircle, cw_radius := Some r\<rparr>) =
       (euclid px py (cw_x obj) (cw_y obj) \<le> r)"
    "canvawork_hit px py (obj\<lparr>cw_type := CwTriangle\<rparr>) =
       inBox px py (cw_x obj - orDefault (cw_width obj) 100 / 2) (cw_x obj + orDefault (cw_width obj) 100 / 2)
         (cw_y obj) (cw_y obj + orDefault (cw_height obj) 100)"
    "canvaspace_hit px py (sobj\<lparr>cs_type := CsRectangle\<rparr>) =
       inBox px py (cs_x sobj) (cs_x sobj + cs_width sobj) (cs_y sobj) (cs_y sobj + cs_height sobj)"
    "canvaspace_hit px py (sobj\<lparr>cs_type := CsText\<rparr>) =
       inBox px py (cs_x sobj) (cs_x sobj + cs_width sobj) (cs_y sobj) (cs_y sobj + cs_height sobj)"
    "canvaspace_hit px py (sobj\<lparr>cs_type := CsCircle\<rparr>) =
       (euclid px py (cs_x sobj + cs_width sobj / 2) (cs_y sobj + cs_height sobj / 2) \<le> cs_width sobj / 2)"
    by (simp_all add: canvawork_hit_def canvaspace_hit_def inBox_def euclid_def Let_def power2_eq_square)
  have t1: "canvawork_hit px py t \<and> \<not> list_ex (canvawork_hit px py) upper \<longrightarrow>
      List.find (canvawork_hit px py) (rev (lower @ t # upper)) = Some t"
    using find_rev_topmost [of "canvawork_hit px py" t upper lower] by blast
  have t2: "canvaspace_hit px py st \<and> \<not> list_ex (canvaspace_hit px py) supper \<longrightarrow>
      List.find (canvaspace_hit px py) (rev (slower @ st # supper)) = Some st"
    using find_rev_topmost [of "canvaspace_hit px py" st supper slower] by blast
  have missing:
    "canvawork_hit px py (obj\<lparr>cw_type := CwRectangle, cw_width := None\<rparr>) = False"
    "canvawork_hit px py (obj\<lparr>cw_type := CwRectangle, cw_height := None\<rparr>) = False"
    "canvawork_hit px py (obj\<lparr>cw_type := CwCircle, cw_radius := None\<rparr>) = False"
    by (simp_all add: canvawork_hit_def Let_def split: option.split)
  show ?thesis
    unfolding cw cs preds missing
    using t1 t2 by (simp add: find_rev_None orDefault_def)
qed

text \<open>
  Two overlapping rectangles, the second added later, and the point (160, 160) inside
  both: the later one is returned, in either canvas. At (10, 10) nothing is hit.
\<close>

theorem hit_test_topmost_witness:
  "canvawork_hit 160 160 rectBelow \<and> canvawork_hit 160 160 rectAbove \<and> \<not> list_ex (canvawork_hit 160 160) [] \<and>
   canvawork_getObjectAtPosition ([rectBelow] @ rectAbove # []) 160 160 = Some rectAbove \<and>
   canvaspace_hit 160 160 boxBelow \<and> canvaspace_hit 160 160 textAbove \<and> \<not> list_ex (canvaspace_hit 160 160) [] \<and>
   canvaspace_getObjectAtPosition ([boxBelow] @ textAbove # []) 160 160 = Some textAbove \<and>
   canvawork_getObjectAtPosition [rectBelow, rectAbove] 10 10 = None"
  using hit_test_topmost [of "[rectBelow, rectAbove]" 160 160 "[boxBelow, textAbove]" rectAbove "[]" "[rectBelow]" textAbove "[]" "[boxBelow]"]
    hit_test_topmost [of "[rectBelow, rectAbove]" 10 10]
  by (simp add: rectBelow_def rectAbove_def boxBelow_def textAbove_def canvawork_hit_def canvaspace_hit_def)

text \<open>
  The claim as worded tests a circle by its distance from (x, y). The sample circle of
  CanvaspaceComponent has x = 300, y = 150 and width 80: the point (300, 150) is at
  distance 0 from (x, y), yet the code does not hit the circle there, because it measures
  from the centre (340, 190) of the box.
\<close>

theorem hit_test_circle_counterexample:
  "euclid 300 150 (cs_x sampleCircle) (cs_y sampleCircle) = 0 \<and>
   canvaspace_getObjectAtPosition [sampleCircle] 300 150 = None"
  by (simp add: canvaspace_getObjectAtPosition_def canvaspace_hit_def sampleCircle_def euclid_def
      Let_def sqrt_le_iff_sq)

section \<open>Properties of the repair on load\<close>

lemma fixItems_ok: "positionsOk its \<Longrightarrow> fixItems n its ls = (its, False, ls)"
  by (induction its arbitrary: n) (simp_all add: positionsOk_def Let_def)

lemma fixItems_ids: "map item_id (fst (fixItems n its ls)) = map item_id its"
  by (induction n its ls rule: fixItems.induct) (simp_all add: Let_def)

lemma fixItems_keys: "map sequenceKey (fst (fixItems n its ls)) = map sequenceKey its"
  by (induction n its ls rule: fixItems.induct) (auto simp add: Let_def sequenceKey_def split: option.splits)

lemma fixItems_writable: "ls_writable (snd (snd (fixItems n its ls))) = ls_writable ls"
  by (induction n its ls rule: fixItems.induct) (simp_all add: Let_def savePosition_def)

lemma fixItems_canvas: "ls_canvas_state (snd (snd (fixItems n its ls))) = ls_canvas_state ls"
  by (induction n its ls rule: fixItems.induct) (simp_all add: Let_def savePosition_def)

lemma chain_nth: "chain xs = map (\<lambda>i. \<lparr>fromId = xs ! i, toId = xs ! (i + 1)\<rparr>) [0 ..< length xs - 1]"
proof (induction xs rule: chain.induct)
  case (1 a b rest)
  have "[0 ..< length (a # b # rest) - 1] = 0 # map Suc [0 ..< length (b # rest) - 1]"
    by (simp add: upt_conv_Cons map_Suc_upt del: upt_Suc)
  then show ?case using 1 by (simp add: comp_def del: upt_Suc)
qed simp_all

lemma generateSequentialArrows_chain:
  "generateSequentialArrows its = chain (map item_id (sort_key sequenceKey its))"
  by (simp add: generateSequentialArrows_def chain_nth Let_def)

lemma chain_length: "length (chain xs) = length xs - 1"
  by (induction xs rule: chain.induct) simp_all

lemma insort_key_same:
  "map f xs = map f ys \<Longrightarrow> map g xs = map g ys \<Longrightarrow> f a = f b \<Longrightarrow> g a = g b \<Longrightarrow>
   map f (insort_key f a xs) = map f (insort_key f b ys) \<and>
   map g (insort_key f a xs) = map g (insort_key f b ys)"
proof (induction xs arbitrary: ys)
  case Nil
  then show ?case by simp
next
  case (Cons x xs)
  then obtain y ys' where ys: "ys = y # ys'" by (cases ys) auto
  with Cons.prems have "f x = f y" "g x = g y" "map f xs = map f ys'" "map g xs = map g ys'" by simp_all
  with Cons.IH [of ys'] Cons.prems(3,4) ys show ?case by simp
qed

lemma sort_key_same:
  "map f xs = map f ys \<Longrightarrow> map g xs = map g ys \<Longrightarrow>
   map f (sort_key f xs) = map f (sort_key f ys) \<and> map g (sort_key f xs) = map g (sort_key f ys)"
proof (induction xs arbitrary: ys)
  case Nil
  then show ?case by simp
next
  case (Cons x xs)
  then obtain y ys' where ys: "ys = y # ys'" by (cases ys) auto
  with Cons.prems have h: "f x = f y" "g x = g y" "map f xs = map f ys'" "map g xs = map g ys'" by simp_all
  from Cons.IH [OF h(3,4)] have ih: "map f (sort_key f xs) = map f (sort_key f ys')"
      "map g (sort_key f xs) = map g (sort_key f ys')" by simp_all
  from insort_key_same [OF ih h(1,2)] ys show ?case by simp
qed

lemma arrowIsValid_dangling: "arrowIsValid its a = (\<not> dangling its a)"
  by (auto simp add: arrowIsValid_def dangling_def list_ex_iff Let_def image_iff) metis+

lemma filter_length_less: "list_ex (\<lambda>a. \<not> P a) xs \<Longrightarrow> length (filter P xs) \<noteq> length xs"
proof -
  assume "list_ex (\<lambda>a. \<not> P a) xs"
  then have "filter P xs \<noteq> xs" by (auto simp add: list_ex_iff filter_id_conv)
  then show ?thesis
    by (metis filter_True length_filter_le  filter_id_conv length_filter_less less_irrefl_nat)
qed

text \<open>
  Claim C7, as the code has it. Let a persisted state have a nonempty item list whose
  positions are all valid and not (0, 0), and an arrow list with at least one arrow that
  names an id of no item. Then the repaired state is the input with exactly the dangling
  arrows removed: the items, \<^verbatim>\<open>nextId\<close> and the other arrows, in their order, are as they
  were. The repaired state is handed to \<^verbatim>\<open>saveCanvasState\<close> at once; when the storage
  accepts the write it holds the repaired state afterwards and nothing else in it
  changes. \<^verbatim>\<open>getCanvasState\<close> returns the repaired state.
\<close>

theorem dangling_arrows_pruned:
  "saved_items state = Some its \<and> its \<noteq> [] \<and> positionsOk its \<and>
   saved_arrows state = Some arrs \<and> list_ex (dangling its) arrs \<longrightarrow>
     fst (autoFixCanvasState ls state) = state\<lparr>saved_arrows := Some (filter (\<lambda>a. \<not> dangling its a) arrs)\<rparr> \<and>
     snd (autoFixCanvasState ls state) = snd (saveCanvasState ls (fst (autoFixCanvasState ls state))) \<and>
     (ls_writable ls \<longrightarrow>
        snd (autoFixCanvasState ls state) = ls\<lparr>ls_canvas_state := Some (fst (autoFixCanvasState ls state))\<rparr>) \<and>
     (ls_canvas_state ls = Some state \<longrightarrow>
        fst (getCanvasState ls) = Some (fst (autoFixCanvasState ls state)) \<and>
        snd (getCanvasState ls) = snd (autoFixCanvasState ls state))"
proof (intro impI)
  assume a: "saved_items state = Some its \<and> its \<noteq> [] \<and> positionsOk its \<and>
   saved_arrows state = Some arrs \<and> list_ex (dangling its) arrs"
  then have ne: "arrs \<noteq> []" by auto
  from a have "list_ex (\<lambda>x. \<not> arrowIsValid its x) arrs" by (simp add: arrowIsValid_dangling)
  then have len: "length (filter (arrowIsValid its) arrs) \<noteq> length arrs" by (rule filter_length_less)
  have fx: "fixItems 0 its ls = (its, False, ls)" using a by (simp add: fixItems_ok)
  have filt: "filter (arrowIsValid its) arrs = filter (\<lambda>a. \<not> dangling its a) arrs"
    by (rule filter_cong) (simp_all add: arrowIsValid_dangling)
  have st: "state\<lparr>saved_items := Some its\<rparr> = state" using a by simp
  have 1: "autoFixCanvasState ls state =
     (state\<lparr>saved_arrows := Some (filter (\<lambda>a. \<not> dangling its a) arrs)\<rparr>,
      snd (saveCanvasState ls (state\<lparr>saved_arrows := Some (filter (\<lambda>a. \<not> dangling its a) arrs)\<rparr>)))"
    using a ne len by (simp add: autoFixCanvasState_def Let_def fx filt st)
  show "fst (autoFixCanvasState ls state) = state\<lparr>saved_arrows := Some (filter (\<lambda>a. \<not> dangling its a) arrs)\<rparr> \<and>
     snd (autoFixCanvasState ls state) = snd (saveCanvasState ls (fst (autoFixCanvasState ls state))) \<and>
     (ls_writable ls \<longrightarrow>
        snd (autoFixCanvasState ls state) = ls\<lparr>ls_canvas_state := Some (fst (autoFixCanvasState ls state))\<rparr>) \<and>
     (ls_canvas_state ls = Some state \<longrightarrow>
        fst (getCanvasState ls) = Some (fst (autoFixCanvasState ls state)) \<and>
        snd (getCanvasState ls) = snd (autoFixCanvasState ls state))"
    by (simp add: 1 saveCanvasState_def getCanvasState_def Let_def)
qed

text \<open>
  Two items with ids 1 and 2 and the arrows 1 to 2 and 2 to 9: loading removes the arrow
  to the missing id 9, keeps the rest and stores the result.
\<close>

theorem dangling_arrows_pruned_witness:
  "saved_items danglingExample = Some danglingItems \<and> danglingItems \<noteq> [] \<and>
   positionsOk danglingItems \<and> saved_arrows danglingExample = Some danglingArrows \<and>
   list_ex (dangling danglingItems) danglingArrows \<and>
   ls_writable (storageWith danglingExample) \<and>
   ls_canvas_state (storageWith danglingExample) = Some danglingExample \<and>
   fst (getCanvasState (storageWith danglingExample)) =
     Some (danglingExample\<lparr>saved_arrows := Some [\<lparr>fromId = 1, toId = 2\<rparr>]\<rparr>) \<and>
   snd (getCanvasState (storageWith danglingExample)) =
     storageWith (danglingExample\<lparr>saved_arrows := Some [\<lparr>fromId = 1, toId = 2\<rparr>]\<rparr>)"
proof -
  have h: "saved_items danglingExample = Some danglingItems \<and> danglingItems \<noteq> [] \<and>
      positionsOk danglingItems \<and> saved_arrows danglingExample = Some danglingArrows \<and>
      list_ex (dangling danglingItems) danglingArrows"
    by (simp add: danglingExample_def savedExample_def danglingItems_def danglingArrows_def
        positionsOk_def dangling_def storedItem_def isValidPosition_def atOrigin_def)
  have w: "ls_writable (storageWith danglingExample)"
    and c: "ls_canvas_state (storageWith danglingExample) = Some danglingExample"
    by (simp_all add: storageWith_def)
  have f: "filter (\<lambda>a. \<not> dangling danglingItems a) danglingArrows = [\<lparr>fromId = 1, toId = 2\<rparr>]"
    by (simp add: danglingItems_def danglingArrows_def dangling_def storedItem_def)
  note t = dangling_arrows_pruned [of danglingExample danglingItems danglingArrows
      "storageWith danglingExample", THEN mp, OF h]
  from t have r1: "fst (autoFixCanvasState (storageWith danglingExample) danglingExample) =
      danglingExample\<lparr>saved_arrows := Some [\<lparr>fromId = 1, toId = 2\<rparr>]\<rparr>"
    unfolding f by blast
  from t w have r2: "snd (autoFixCanvasState (storageWith danglingExample) danglingExample) =
      (storageWith danglingExample)\<lparr>ls_canvas_state :=
         Some (fst (autoFixCanvasState (storageWith danglingExample) danglingExample))\<rparr>"
    by blast
  from t c have r3: "fst (getCanvasState (storageWith danglingExample)) =
        Some (fst (autoFixCanvasState (storageWith danglingExample) danglingExample))"
    and r4: "snd (getCanvasState (storageWith danglingExample)) =
        snd (autoFixCanvasState (storageWith danglingExample) danglingExample)"
    by blast+
  have s: "(storageWith danglingExample)\<lparr>ls_canvas_state := Some st\<rparr> = storageWith st" for st
    by (simp add: storageWith_def)
  have g1: "fst (getCanvasState (storageWith danglingExample)) =
     Some (danglingExample\<lparr>saved_arrows := Some [\<lparr>fromId = 1, toId = 2\<rparr>]\<rparr>)"
    by (simp only: r3 r1)
  have g2: "snd (getCanvasState (storageWith danglingExample)) =
     storageWith (danglingExample\<lparr>saved_arrows := Some [\<lparr>fromId = 1, toId = 2\<rparr>]\<rparr>)"
    by (simp only: r4 r2 r1 s)
  from h w c g1 g2 show ?thesis by blast
qed

text \<open>
  The claim as worded does not ask for an item to exist. With an empty item list the
  function returns at its first test: the arrow 1 to 2, which names no item, stays.
\<close>

theorem dangling_arrows_counterexample:
  "positionsOk [] \<and>
   list_ex (dangling []) [\<lparr>fromId = 1, toId = 2\<rparr>] \<and>
   fst (getCanvasState (storageWith (savedExample [] (Some [\<lparr>fromId = 1, toId = 2\<rparr>])))) =
     Some (savedExample [] (Some [\<lparr>fromId = 1, toId = 2\<rparr>])) \<and>
   saved_arrows (savedExample [] (Some [\<lparr>fromId = 1, toId = 2\<rparr>])) = Some [\<lparr>fromId = 1, toId = 2\<rparr>]"
  by (simp add: positionsOk_def dangling_def getCanvasState_def autoFixCanvasState_def storageWith_def
      savedExample_def Let_def)

text \<open>
  Claim C10, as the code has it. Let a persisted state have a nonempty item list and an
  arrow list that is absent or empty. Then the repaired state has the chain of arrows over
  the items sorted by \<^verbatim>\<open>properties.sequence\<close>, the id standing in for a sequence that is
  absent or 0: one arrow from each item of the sorted list to the next, n - 1 arrows for n
  items, so at least one when there are two items or more. The ids and keys are those of
  the loaded items, whose positions may have been repaired. The repaired state is handed
  to \<^verbatim>\<open>saveCanvasState\<close> at once, and a storage that accepts the write holds it afterwards.
\<close>

theorem sequential_arrows_generated:
  "saved_items state = Some its \<and> its \<noteq> [] \<and> (saved_arrows state = None \<or> saved_arrows state = Some []) \<longrightarrow>
     (let r = autoFixCanvasState ls state;
          fixedItems = fst (fixItems 0 its ls);
          ids = map item_id (sort_key sequenceKey its)
      in saved_items (fst r) = Some fixedItems \<and>
         map item_id fixedItems = map item_id its \<and>
         saved_arrows (fst r) = Some (chain ids) \<and>
         length (chain ids) = length its - 1 \<and>
         (2 \<le> length its \<longrightarrow> chain ids \<noteq> []) \<and>
         sorted (map sequenceKey (sort_key sequenceKey its)) \<and>
         set (sort_key sequenceKey its) = set its \<and>
         snd r = snd (saveCanvasState (snd (snd (fixItems 0 its ls))) (fst r)) \<and>
         (ls_writable ls \<longrightarrow> ls_canvas_state (snd r) = Some (fst r)) \<and>
         (ls_canvas_state ls = Some state \<longrightarrow> getCanvasState ls = (Some (fst r), snd r)))"
proof (intro impI)
  assume a: "saved_items state = Some its \<and> its \<noteq> [] \<and> (saved_arrows state = None \<or> saved_arrows state = Some [])"
  define fixedItems where "fixedItems = fst (fixItems 0 its ls)"
  define ls1 where "ls1 = snd (snd (fixItems 0 its ls))"
  define ids where "ids = map item_id (sort_key sequenceKey its)"
  have arr0: "(case saved_arrows state of None \<Rightarrow> [] | Some a \<Rightarrow> a) = []" using a by auto
  have same: "map item_id (sort_key sequenceKey fixedItems) = ids"
    unfolding ids_def fixedItems_def
    using sort_key_same [of sequenceKey "fst (fixItems 0 its ls)" its item_id]
    by (simp add: fixItems_ids fixItems_keys)
  have 1: "autoFixCanvasState ls state =
      (state\<lparr>saved_items := Some fixedItems, saved_arrows := Some (chain ids)\<rparr>,
       snd (saveCanvasState ls1 (state\<lparr>saved_items := Some fixedItems, saved_arrows := Some (chain ids)\<rparr>)))"
    using a arr0
    by (simp add: autoFixCanvasState_def Let_def generateSequentialArrows_chain same
        fixedItems_def [symmetric] ls1_def [symmetric])
  have w: "ls_writable ls1 = ls_writable ls" by (simp add: ls1_def fixItems_writable)
  have len: "length (chain ids) = length its - 1" by (simp add: chain_length ids_def)
  then have ne: "2 \<le> length its \<longrightarrow> chain ids \<noteq> []" by auto
  show "(let r = autoFixCanvasState ls state;
          fixedItems = fst (fixItems 0 its ls);
          ids = map item_id (sort_key sequenceKey its)
      in saved_items (fst r) = Some fixedItems \<and>
         map item_id fixedItems = map item_id its \<and>
         saved_arrows (fst r) = Some (chain ids) \<and>
         length (chain ids) = length its - 1 \<and>
         (2 \<le> length its \<longrightarrow> chain ids \<noteq> []) \<and>
         sorted (map sequenceKey (sort_key sequenceKey its)) \<and>
         set (sort_key sequenceKey its) = set its \<and>
         snd r = snd (saveCanvasState (snd (snd (fixItems 0 its ls))) (fst r)) \<and>
         (ls_writable ls \<longrightarrow> ls_canvas_state (snd r) = Some (fst r)) \<and>
         (ls_canvas_state ls = Some state \<longrightarrow> getCanvasState ls = (Some (fst r), snd r)))"
    unfolding Let_def fixedItems_def [symmetric] ls1_def [symmetric] ids_def [symmetric]
    using len ne w
    by (simp add: 1 fixedItems_def fixItems_ids saveCanvasState_def getCanvasState_def Let_def)
qed

text \<open>
  Three items with no arrows, stored in the order of the ids 3, 2, 1. The first has
  sequence 0 and the last has none, so their keys are the ids 3 and 1; the second has
  sequence 1. The stable sort puts the two items of key 1 first, in their stored order.
\<close>

theorem sequential_arrows_generated_witness:
  "saved_items (savedExample unorderedExample None) = Some unorderedExample \<and>
   unorderedExample \<noteq> [] \<and>
   saved_arrows (savedExample unorderedExample None) = None \<and>
   2 \<le> length unorderedExample \<and>
   ls_writable (storageWith (savedExample unorderedExample None)) \<and>
   ls_canvas_state (storageWith (savedExample unorderedExample None)) = Some (savedExample unorderedExample None) \<and>
   map sequenceKey unorderedExample = [3, 1, 1] \<and>
   map_option saved_arrows (fst (getCanvasState (storageWith (savedExample unorderedExample None)))) =
     Some (Some [\<lparr>fromId = 2, toId = 1\<rparr>, \<lparr>fromId = 1, toId = 3\<rparr>]) \<and>
   ls_canvas_state (snd (getCanvasState (storageWith (savedExample unorderedExample None)))) =
     fst (getCanvasState (storageWith (savedExample unorderedExample None)))"
proof -
  let ?st = "savedExample unorderedExample None"
  have h: "saved_items ?st = Some unorderedExample \<and> unorderedExample \<noteq> [] \<and>
      (saved_arrows ?st = None \<or> saved_arrows ?st = Some [])"
    by (simp add: savedExample_def unorderedExample_def)
  have l: "2 \<le> length unorderedExample" by (simp add: unorderedExample_def)
  have n: "saved_arrows ?st = None" by (simp add: savedExample_def)
  have w: "ls_writable (storageWith ?st)"
    and c: "ls_canvas_state (storageWith ?st) = Some ?st"
    by (simp_all add: storageWith_def)
  have k: "map sequenceKey unorderedExample = [3, 1, 1]"
    by (simp add: unorderedExample_def storedItem_def sequenceKey_def)
  have ids: "chain (map item_id (sort_key sequenceKey unorderedExample)) =
      [\<lparr>fromId = 2, toId = 1\<rparr>, \<lparr>fromId = 1, toId = 3\<rparr>]"
    by (simp add: unorderedExample_def storedItem_def sequenceKey_def)
  note t = sequential_arrows_generated [of ?st unorderedExample "storageWith ?st", THEN mp, OF h,
      unfolded Let_def]
  from t have r1: "saved_arrows (fst (autoFixCanvasState (storageWith ?st) ?st)) =
        Some [\<lparr>fromId = 2, toId = 1\<rparr>, \<lparr>fromId = 1, toId = 3\<rparr>]"
    unfolding ids by blast
  from t w have r2: "ls_canvas_state (snd (autoFixCanvasState (storageWith ?st) ?st)) =
        Some (fst (autoFixCanvasState (storageWith ?st) ?st))"
    by blast
  from t c have r3: "getCanvasState (storageWith ?st) =
        (Some (fst (autoFixCanvasState (storageWith ?st) ?st)), snd (autoFixCanvasState (storageWith ?st) ?st))"
    by blast
  have g1: "map_option saved_arrows (fst (getCanvasState (storageWith ?st))) =
     Some (Some [\<lparr>fromId = 2, toId = 1\<rparr>, \<lparr>fromId = 1, toId = 3\<rparr>])"
    by (simp add: r3 r1)
  have g2: "ls_canvas_state (snd (getCanvasState (storageWith ?st))) = fst (getCanvasState (storageWith ?st))"
    by (simp add: r3 r2)
  from h n l w c k g1 g2 show ?thesis by blast
qed

text \<open>
  The claim as worded says the state is not left without arrows. A state with a single
  item and no arrows is loaded with an empty arrow list.
\<close>

theorem sequential_arrows_counterexample:
  "map_option saved_arrows
     (fst (getCanvasState (storageWith (savedExample [storedItem 1 (Some 1) 120 120] None)))) =
   Some (Some [])"
  by (simp add: getCanvasState_def autoFixCanvasState_def storageWith_def savedExample_def storedItem_def
      Let_def isValidPosition_def atOrigin_def generateSequentialArrows_def)

section \<open>Properties of the drag and the drop\<close>

lemma heap_updateAllArrows [simp]: "heap (updateAllArrows fmt s) = heap s"
  and items_updateAllArrows [simp]: "items (updateAllArrows fmt s) = items s"
  by (simp_all add: updateAllArrows_def)

lemma heap_createArrow [simp]: "heap (createArrow a b s) = heap s"
  and items_createArrow [simp]: "items (createArrow a b s) = items s"
  by (simp_all add: createArrow_def Let_def)

lemma allocated_createArrow [simp]: "allocated (createArrow a b s) = allocated s"
  by (simp add: createArrow_def Let_def)

lemma heap_component_save [simp]: "heap (component_saveCanvasState s) = heap s"
  and items_component_save [simp]: "items (component_saveCanvasState s) = items s"
  by (simp_all add: component_saveCanvasState_def Let_def)

lemma multipleOf_snap: "multipleOf 20 (js_round (v / 20) * 20)"
  by (simp add: multipleOf_def js_round_def)

lemma snap_nearest: "\<bar>js_round (v / 20) * 20 - v\<bar> \<le> 10"
proof -
  have "of_int \<lfloor>v / 20 + 1 / 2\<rfloor> \<le> v / 20 + 1 / 2" by (rule of_int_floor_le)
  moreover have "v / 20 + 1 / 2 < of_int \<lfloor>v / 20 + 1 / 2\<rfloor> + 1" by linarith
  ultimately show ?thesis unfolding js_round_def by (simp add: abs_le_iff field_simps)
qed

lemma create_items: "items (createNewItemFromToolbar fmt (Some sc) ev lbl ty s) = items s @ [allocated s]"
  by (simp add: createNewItemFromToolbar_def Let_def split: option.splits)

lemma create_pos: "position (heap (createNewItemFromToolbar fmt (Some sc) ev lbl ty s) (allocated s))
   = \<lparr>pos_x = js_round (fst (dropPoint sc ev) / 20) * 20, pos_y = js_round (snd (dropPoint sc ev) / 20) * 20\<rparr>"
  by (simp add: createNewItemFromToolbar_def Let_def dropPoint_def split: option.splits)

lemma create_old: "\<forall>r. r \<noteq> allocated s \<longrightarrow> heap (createNewItemFromToolbar fmt (Some sc) ev lbl ty s) r = heap s r"
  by (simp add: createNewItemFromToolbar_def Let_def dropPoint_def split: option.splits)

lemma updateAllArrows_fields [simp]:
  "draggedItem (updateAllArrows fmt s) = draggedItem s"
  "linkedButtons (updateAllArrows fmt s) = linkedButtons s"
  by (simp_all add: updateAllArrows_def)

lemma moveLinked_other: "r \<noteq> c \<Longrightarrow> moveLinked dx dy h c r = h r"
  by (simp add: moveLinked_def Let_def)

lemma moveLinked_self: "position (moveLinked dx dy h c c) =
    \<lparr>pos_x = pos_x (position (h c)) + dx, pos_y = pos_y (position (h c)) + dy\<rparr>"
  by (simp add: moveLinked_def Let_def)

lemma foldl_moveLinked_other: "r \<notin> set cs \<Longrightarrow> foldl (moveLinked dx dy) h cs r = h r"
  by (induction cs arbitrary: h) (auto simp add: moveLinked_other)

lemma foldl_moveLinked_member:
  "distinct cs \<Longrightarrow> c \<in> set cs \<Longrightarrow>
   position (foldl (moveLinked dx dy) h cs c) =
     \<lparr>pos_x = pos_x (position (h c)) + dx, pos_y = pos_y (position (h c)) + dy\<rparr>"
proof (induction cs arbitrary: h)
  case Nil then show ?case by simp
next
  case (Cons a cs)
  show ?case
  proof (cases "c = a")
    case True
    then have "c \<notin> set cs" using Cons.prems by simp
    then show ?thesis using True by (simp add: foldl_moveLinked_other moveLinked_self)
  next
    case False
    then have "c \<in> set cs" "distinct cs" using Cons.prems by simp_all
    then show ?thesis using Cons.IH[of "moveLinked dx dy h a"] False by (simp add: moveLinked_other)
  qed
qed

lemma onMouseMove_inv: "dragInv s d cs \<Longrightarrow> dragInv (onMouseMove fmt sc ev s) d cs"
  by (simp add: dragInv_def onMouseMove_def Let_def split: option.splits)

lemma onMouseMove_delta:
  assumes "dragInv s d cs" "c \<in> set cs"
  shows "fst (posOf (onMouseMove fmt sc ev s) c) - fst (posOf s c) =
         fst (posOf (onMouseMove fmt sc ev s) d) - fst (posOf s d) \<and>
         snd (posOf (onMouseMove fmt sc ev s) c) - snd (posOf s c) =
         snd (posOf (onMouseMove fmt sc ev s) d) - snd (posOf s d)"
proof -
  have d: "draggedItem s = Some d" and l: "linkedButtons s = cs" and dist: "distinct cs" and dn: "d \<notin> set cs"
    using assms(1) by (simp_all add: dragInv_def)
  have cd: "c \<noteq> d" using assms(2) dn by auto
  show ?thesis
    using assms(2) dn cd
    by (simp add: onMouseMove_def Let_def posOf_def d l foldl_moveLinked_member[OF dist]
        foldl_moveLinked_other split: option.splits)
qed

lemma onMouseMove_rel:
  assumes "dragInv s d cs" "c \<in> set cs"
  shows "relOffset (onMouseMove fmt sc ev s) d c = relOffset s d c"
  using onMouseMove_delta[OF assms, of fmt sc ev] by (simp add: relOffset_def)

lemma moves_inv: "dragInv s d cs \<Longrightarrow> dragInv (moves fmt es s) d cs"
  by (induction es arbitrary: s) (simp_all add: onMouseMove_inv)

lemma moves_rel: "dragInv s d cs \<Longrightarrow> c \<in> set cs \<Longrightarrow> relOffset (moves fmt es s) d c = relOffset s d c"
  by (induction es arbitrary: s) (simp_all add: onMouseMove_inv onMouseMove_rel)

lemma sv_onMouseMove_inv: "dragInv s d cs \<Longrightarrow> dragInv (sv_onMouseMove fmt sc ev s) d cs"
  by (simp add: dragInv_def sv_onMouseMove_def Let_def split: option.splits)

lemma sv_onMouseMove_delta:
  assumes "dragInv s d cs" "c \<in> set cs"
  shows "fst (posOf (sv_onMouseMove fmt sc ev s) c) - fst (posOf s c) =
         fst (posOf (sv_onMouseMove fmt sc ev s) d) - fst (posOf s d) \<and>
         snd (posOf (sv_onMouseMove fmt sc ev s) c) - snd (posOf s c) =
         snd (posOf (sv_onMouseMove fmt sc ev s) d) - snd (posOf s d)"
proof -
  have d: "draggedItem s = Some d" and l: "linkedButtons s = cs" and dist: "distinct cs" and dn: "d \<notin> set cs"
    using assms(1) by (simp_all add: dragInv_def)
  have cd: "c \<noteq> d" using assms(2) dn by auto
  show ?thesis
    using assms(2) dn cd
    by (simp add: sv_onMouseMove_def Let_def posOf_def d l foldl_moveLinked_member[OF dist]
        foldl_moveLinked_other split: option.splits)
qed

lemma sv_onMouseMove_rel:
  assumes "dragInv s d cs" "c \<in> set cs"
  shows "relOffset (sv_onMouseMove fmt sc ev s) d c = relOffset s d c"
  using sv_onMouseMove_delta[OF assms, of fmt sc ev] by (simp add: relOffset_def)

lemma sv_moves_inv: "dragInv s d cs \<Longrightarrow> dragInv (sv_moves fmt es s) d cs"
  by (induction es arbitrary: s) (simp_all add: sv_onMouseMove_inv)

lemma sv_moves_rel: "dragInv s d cs \<Longrightarrow> c \<in> set cs \<Longrightarrow> relOffset (sv_moves fmt es s) d c = relOffset s d c"
  by (induction es arbitrary: s) (simp_all add: sv_onMouseMove_inv sv_onMouseMove_rel)

lemma timeout_heap: "heap (onMouseDown_timeout sc ev item s) = heap s"
  by (simp add: onMouseDown_timeout_def Let_def split: option.splits)

lemma timeout_dragged: "draggedItem (onMouseDown_timeout sc ev item s) = Some item"
  by (simp add: onMouseDown_timeout_def Let_def split: option.splits)

lemma timeout_linked: "item_type (heap s item) = Action2 \<Longrightarrow>
   linkedButtons (onMouseDown_timeout sc ev item s) =
     (case firstChild s item Continue of None \<Rightarrow> [] | Some c \<Rightarrow> [c]) @
     (case firstChild s item Reject of None \<Rightarrow> [] | Some c \<Rightarrow> [c])"
  by (simp add: onMouseDown_timeout_def Let_def firstChild_def split: option.splits)

lemma firstChild_type: "firstChild s item ty = Some c \<Longrightarrow> item_type (heap s c) = ty"
  by (auto simp add: firstChild_def find_Some_iff)

lemma timeout_inv: "item_type (heap s item) = Action2 \<Longrightarrow>
   dragInv (onMouseDown_timeout sc ev item s) item (linkedButtons (onMouseDown_timeout sc ev item s))"
  by (auto simp add: dragInv_def timeout_dragged timeout_linked split: option.splits dest!: firstChild_type)

lemma sv_start_heap: "heap (sv_startDragging sc ev item s) = heap s"
  by (simp add: sv_startDragging_def Let_def split: option.splits)

lemma sv_start_linked: "item_type (heap s item) = Action2 \<Longrightarrow>
   linkedButtons (sv_startDragging sc ev item s) =
     filter (\<lambda>i. (item_type (heap s i) = Continue \<or> item_type (heap s i) = Reject) \<and> hasArrow s item i) (items s)"
  by (simp add: sv_startDragging_def Let_def split: option.splits)

lemma sv_start_inv: "item_type (heap s item) = Action2 \<Longrightarrow> distinct (items s) \<Longrightarrow>
   dragInv (sv_startDragging sc ev item s) item (linkedButtons (sv_startDragging sc ev item s))"
  by (auto simp add: dragInv_def sv_start_linked) (auto simp add: sv_startDragging_def Let_def split: option.splits)

lemma storeOk_initial: "storeOk initialWorkstatus"
  by (simp add: storeOk_def initialWorkstatus_def)

lemma storeOk_distinct: "storeOk s \<Longrightarrow> distinct (items s)"
  by (simp add: storeOk_def)

lemma storeOk_createNewItemFromToolbar:
  "storeOk s \<Longrightarrow> storeOk (createNewItemFromToolbar fmt scrollContainerRef ev lbl ty s)"
proof (cases scrollContainerRef)
  case None
  then show "storeOk s \<Longrightarrow> ?thesis" by (simp add: createNewItemFromToolbar_def)
next
  case (Some sc)
  assume ok: "storeOk s"
  have a: "allocated (createNewItemFromToolbar fmt (Some sc) ev lbl ty s) = Suc (allocated s)"
    by (simp add: createNewItemFromToolbar_def Let_def component_saveCanvasState_def
        updateAllArrows_def split: option.split)
  from ok have "\<forall>r \<in> set (items s). r < allocated s" by (simp add: storeOk_def list_all_iff)
  then have "allocated s \<notin> set (items s)" "\<forall>r \<in> set (items s). r < Suc (allocated s)" by auto
  with ok show ?thesis unfolding Some by (simp add: storeOk_def a create_items list_all_iff)
qed

lemma storeOk_onMouseMove: "storeOk s \<Longrightarrow> storeOk (onMouseMove fmt sc ev s)"
  by (simp add: storeOk_def onMouseMove_def updateAllArrows_def Let_def split: option.split)

lemma storeOk_sv_onMouseMove: "storeOk s \<Longrightarrow> storeOk (sv_onMouseMove fmt sc ev s)"
  by (simp add: storeOk_def sv_onMouseMove_def updateAllArrows_def Let_def split: option.split)

lemma firstChild_linked:
  "firstChild s item ty = Some c \<Longrightarrow> ty = Continue \<or> ty = Reject \<Longrightarrow> isLinkedChild s item c"
  by (auto simp add: firstChild_def find_Some_iff isLinkedChild_def)

lemma timeout_children:
  "item_type (heap s item) = Action2 \<Longrightarrow> c \<in> set (linkedButtons (onMouseDown_timeout sc ev item s)) \<Longrightarrow>
   isLinkedChild s item c"
  by (auto simp add: timeout_linked split: option.splits dest: firstChild_linked [OF sym])

lemma relOffset_heap: "heap s = heap t \<Longrightarrow> relOffset s a b = relOffset t a b"
  by (simp add: relOffset_def posOf_def)

text \<open>
  Claim C8. Let an Action 2 node be picked up, and let any number of mouse moves follow.
  The nodes that move with it are its linked children found at the start of the drag
  through the existing arrows: in the component of \<^verbatim>\<open>workstatus.component.ts\<close> the first
  Continue and the first Reject node that an arrow reaches from it, in the server-backed
  copy every such node of the item list, whose objects are listed once each. On every
  further mouse move each of these children changes its position by exactly the delta by
  which the dragged node changes its own, in x and in y, and so its offset from the
  dragged node is, after the move, what it was before the drag.
\<close>

theorem rigid_group_drag:
  "(item_type (heap s item) = Action2 \<longrightarrow>
      (let s1 = onMouseDown_timeout sc0 ev0 item s;
           s2 = moves fmt es s1;
           s3 = onMouseMove fmt sc ev s2
       in linkedButtons s1 =
            (case firstChild s item Continue of None \<Rightarrow> [] | Some c \<Rightarrow> [c]) @
            (case firstChild s item Reject of None \<Rightarrow> [] | Some c \<Rightarrow> [c]) \<and>
          (\<forall>c \<in> set (linkedButtons s1).
              isLinkedChild s item c \<and>
              fst (posOf s3 c) - fst (posOf s2 c) = fst (posOf s3 item) - fst (posOf s2 item) \<and>
              snd (posOf s3 c) - snd (posOf s2 c) = snd (posOf s3 item) - snd (posOf s2 item) \<and>
              relOffset s3 item c = relOffset s item c))) \<and>
   (item_type (heap s item) = Action2 \<and> distinct (items s) \<longrightarrow>
      (let s1 = sv_startDragging sc0 ev0 item s;
           s2 = sv_moves fmt es s1;
           s3 = sv_onMouseMove fmt sc ev s2
       in linkedButtons s1 = filter (isLinkedChild s item) (items s) \<and>
          (\<forall>c \<in> set (linkedButtons s1).
              fst (posOf s3 c) - fst (posOf s2 c) = fst (posOf s3 item) - fst (posOf s2 item) \<and>
              snd (posOf s3 c) - snd (posOf s2 c) = snd (posOf s3 item) - snd (posOf s2 item) \<and>
              relOffset s3 item c = relOffset s item c)))"
proof (intro conjI impI)
  assume a: "item_type (heap s item) = Action2"
  define s1 where "s1 = onMouseDown_timeout sc0 ev0 item s"
  define cs where "cs = linkedButtons s1"
  have inv1: "dragInv s1 item cs" unfolding s1_def cs_def using a by (rule timeout_inv)
  have inv2: "dragInv (moves fmt es s1) item cs" using inv1 by (rule moves_inv)
  have h: "heap s1 = heap s" by (simp add: s1_def timeout_heap)
  have rel: "relOffset (onMouseMove fmt sc ev (moves fmt es s1)) item c = relOffset s item c"
    if "c \<in> set cs" for c
    using onMouseMove_rel [OF inv2 that, of fmt sc ev] moves_rel [OF inv1 that, of fmt es]
      relOffset_heap [OF h, of item c] by simp
  have ch: "isLinkedChild s item c" if "c \<in> set cs" for c
    using that a unfolding cs_def s1_def by (simp add: timeout_children)
  show "let s1 = onMouseDown_timeout sc0 ev0 item s;
           s2 = moves fmt es s1;
           s3 = onMouseMove fmt sc ev s2
       in linkedButtons s1 =
            (case firstChild s item Continue of None \<Rightarrow> [] | Some c \<Rightarrow> [c]) @
            (case firstChild s item Reject of None \<Rightarrow> [] | Some c \<Rightarrow> [c]) \<and>
          (\<forall>c \<in> set (linkedButtons s1).
              isLinkedChild s item c \<and>
              fst (posOf s3 c) - fst (posOf s2 c) = fst (posOf s3 item) - fst (posOf s2 item) \<and>
              snd (posOf s3 c) - snd (posOf s2 c) = snd (posOf s3 item) - snd (posOf s2 item) \<and>
              relOffset s3 item c = relOffset s item c)"
    unfolding Let_def s1_def [symmetric] cs_def [symmetric]
    using onMouseMove_delta [OF inv2, of _ fmt sc ev] rel ch timeout_linked [OF a, of sc0 ev0]
    by (simp add: cs_def s1_def)
next
  assume a: "item_type (heap s item) = Action2 \<and> distinct (items s)"
  define s1 where "s1 = sv_startDragging sc0 ev0 item s"
  define cs where "cs = linkedButtons s1"
  have inv1: "dragInv s1 item cs" unfolding s1_def cs_def using a by (simp add: sv_start_inv)
  have inv2: "dragInv (sv_moves fmt es s1) item cs" using inv1 by (rule sv_moves_inv)
  have h: "heap s1 = heap s" by (simp add: s1_def sv_start_heap)
  have rel: "relOffset (sv_onMouseMove fmt sc ev (sv_moves fmt es s1)) item c = relOffset s item c"
    if "c \<in> set cs" for c
    using sv_onMouseMove_rel [OF inv2 that, of fmt sc ev] sv_moves_rel [OF inv1 that, of fmt es]
      relOffset_heap [OF h, of item c] by simp
  have l: "linkedButtons s1 = filter (isLinkedChild s item) (items s)"
  proof -
    have "isLinkedChild s item = (\<lambda>i. (item_type (heap s i) = Continue \<or> item_type (heap s i) = Reject) \<and>
        hasArrow s item i)"
      by (rule ext) (simp add: isLinkedChild_def)
    then show ?thesis using a by (simp add: s1_def sv_start_linked)
  qed
  show "let s1 = sv_startDragging sc0 ev0 item s;
           s2 = sv_moves fmt es s1;
           s3 = sv_onMouseMove fmt sc ev s2
       in linkedButtons s1 = filter (isLinkedChild s item) (items s) \<and>
          (\<forall>c \<in> set (linkedButtons s1).
              fst (posOf s3 c) - fst (posOf s2 c) = fst (posOf s3 item) - fst (posOf s2 item) \<and>
              snd (posOf s3 c) - snd (posOf s2 c) = snd (posOf s3 item) - snd (posOf s2 item) \<and>
              relOffset s3 item c = relOffset s item c)"
    unfolding Let_def s1_def [symmetric] cs_def [symmetric]
    using sv_onMouseMove_delta [OF inv2, of _ fmt sc ev] rel l
    by (simp add: cs_def s1_def)
qed

text \<open>
  The example graph, picked up at (150, 140) and moved to (263, 251) and then to (95, 88).
  The snapping component ends with the node at (60, 60), the other copy at (65, 68); in
  both the children are still 280 to the right and 45 above and below.
\<close>

theorem rigid_group_drag_witness:
  "item_type (heap exampleGraph 0) = Action2 \<and> distinct (items exampleGraph) \<and>
   linkedButtons (onMouseDown_timeout (Some examplePage) (mouseAt 150 140) 0 exampleGraph) = [1, 2] \<and>
   linkedButtons (sv_startDragging (Some examplePage) (mouseAt 150 140) 0 exampleGraph) = [1, 2] \<and>
   relOffset exampleGraph 0 1 = (280, - 45) \<and> relOffset exampleGraph 0 2 = (280, 45) \<and>
   posOf (onMouseMove exampleFmt (Some examplePage) (mouseAt 95 88)
      (moves exampleFmt [(Some examplePage, mouseAt 263 251)]
        (onMouseDown_timeout (Some examplePage) (mouseAt 150 140) 0 exampleGraph))) 0 = (60, 60) \<and>
   relOffset (onMouseMove exampleFmt (Some examplePage) (mouseAt 95 88)
      (moves exampleFmt [(Some examplePage, mouseAt 263 251)]
        (onMouseDown_timeout (Some examplePage) (mouseAt 150 140) 0 exampleGraph))) 0 1 = (280, - 45) \<and>
   relOffset (onMouseMove exampleFmt (Some examplePage) (mouseAt 95 88)
      (moves exampleFmt [(Some examplePage, mouseAt 263 251)]
        (onMouseDown_timeout (Some examplePage) (mouseAt 150 140) 0 exampleGraph))) 0 2 = (280, 45) \<and>
   posOf (sv_onMouseMove exampleFmt (Some examplePage) (mouseAt 95 88)
      (sv_moves exampleFmt [(Some examplePage, mouseAt 263 251)]
        (sv_startDragging (Some examplePage) (mouseAt 150 140) 0 exampleGraph))) 0 = (65, 68) \<and>
   relOffset (sv_onMouseMove exampleFmt (Some examplePage) (mouseAt 95 88)
      (sv_moves exampleFmt [(Some examplePage, mouseAt 263 251)]
        (sv_startDragging (Some examplePage) (mouseAt 150 140) 0 exampleGraph))) 0 1 = (280, - 45) \<and>
   relOffset (sv_onMouseMove exampleFmt (Some examplePage) (mouseAt 95 88)
      (sv_moves exampleFmt [(Some examplePage, mouseAt 263 251)]
        (sv_startDragging (Some examplePage) (mouseAt 150 140) 0 exampleGraph))) 0 2 = (280, 45)"
proof -
  let ?s1 = "onMouseDown_timeout (Some examplePage) (mouseAt 150 140) 0 exampleGraph"
  let ?s3 = "onMouseMove exampleFmt (Some examplePage) (mouseAt 95 88)
      (moves exampleFmt [(Some examplePage, mouseAt 263 251)] ?s1)"
  let ?v1 = "sv_startDragging (Some examplePage) (mouseAt 150 140) 0 exampleGraph"
  let ?v3 = "sv_onMouseMove exampleFmt (Some examplePage) (mouseAt 95 88)
      (sv_moves exampleFmt [(Some examplePage, mouseAt 263 251)] ?v1)"
  have a: "item_type (heap exampleGraph 0) = Action2"
    by (simp add: exampleGraph_def graphItem_def)
  have d: "distinct (items exampleGraph)"
    by (simp add: exampleGraph_def initialWorkstatus_def)
  have l: "linkedButtons ?s1 = [1, 2]"
    by (simp add: onMouseDown_timeout_def Let_def exampleGraph_def examplePage_def mouseAt_def
        hasArrow_def graphItem_def initialWorkstatus_def)
  have lv: "linkedButtons ?v1 = [1, 2]"
    by (simp add: sv_startDragging_def Let_def exampleGraph_def examplePage_def mouseAt_def
        hasArrow_def graphItem_def initialWorkstatus_def)
  have r0: "relOffset exampleGraph 0 1 = (280, - 45)" "relOffset exampleGraph 0 2 = (280, 45)"
    by (simp_all add: relOffset_def posOf_def exampleGraph_def graphItem_def)
  have p: "posOf ?s3 0 = (60, 60)"
    by (simp add: onMouseMove_def onMouseDown_timeout_def Let_def exampleGraph_def examplePage_def
        mouseAt_def hasArrow_def graphItem_def initialWorkstatus_def posOf_def js_round_def
        moveLinked_def updateAllArrows_def)
  have pv: "posOf ?v3 0 = (65, 68)"
    by (simp add: sv_onMouseMove_def sv_startDragging_def Let_def exampleGraph_def examplePage_def
        mouseAt_def hasArrow_def graphItem_def initialWorkstatus_def posOf_def
        moveLinked_def updateAllArrows_def)
  note t = rigid_group_drag [where s = exampleGraph and item = 0 and ?sc0.0 = "Some examplePage"
      and ?ev0.0 = "mouseAt 150 140" and fmt = exampleFmt
      and es = "[(Some examplePage, mouseAt 263 251)]" and sc = "Some examplePage"
      and ev = "mouseAt 95 88", unfolded Let_def]
  from t a have n: "\<forall>c \<in> set (linkedButtons ?s1). relOffset ?s3 0 c = relOffset exampleGraph 0 c"
    by blast
  from t a d have v: "\<forall>c \<in> set (linkedButtons ?v1). relOffset ?v3 0 c = relOffset exampleGraph 0 c"
    by blast
  have m: "(1::nat) \<in> set (linkedButtons ?s1)" "(2::nat) \<in> set (linkedButtons ?s1)"
    "(1::nat) \<in> set (linkedButtons ?v1)" "(2::nat) \<in> set (linkedButtons ?v1)"
    unfolding l lv by simp_all
  from n m have "relOffset ?s3 0 1 = relOffset exampleGraph 0 1"
    and "relOffset ?s3 0 2 = relOffset exampleGraph 0 2" by blast+
  then have n1: "relOffset ?s3 0 1 = (280, - 45)" and n2: "relOffset ?s3 0 2 = (280, 45)"
    by (simp_all only: r0)
  from v m have "relOffset ?v3 0 1 = relOffset exampleGraph 0 1"
    and "relOffset ?v3 0 2 = relOffset exampleGraph 0 2" by blast+
  then have v1: "relOffset ?v3 0 1 = (280, - 45)" and v2: "relOffset ?v3 0 2 = (280, 45)"
    by (simp_all only: r0)
  from a d l lv r0 p n1 n2 pv v1 v2 show ?thesis by blast
qed

lemma snd_sv_getDefaultProperties:
  "snd (sv_getDefaultProperties lbl p s) = s\<lparr>sequenceCounter := sequenceCounter s + 1\<rparr>"
  by (simp add: sv_getDefaultProperties_def split: option.split)

lemma heap_maybe_arrow:
  "heap (case l of None \<Rightarrow> s | Some a \<Rightarrow> createArrow a r s) = heap s"
  by (cases l) simp_all

lemma sv_create_pos:
  "toolbarDragType s = Some ty \<Longrightarrow> toolbarDragLabel s \<noteq> [] \<Longrightarrow>
   posOf (sv_createItemAtPosition fmt cx cy s) (allocated s) = (cx - 70, cy - 32)"
  by (simp add: sv_createItemAtPosition_def snd_sv_getDefaultProperties Let_def posOf_def
      heap_maybe_arrow split: option.split)

text \<open>
  Claim C9, as the code has it. In the component of \<^verbatim>\<open>workstatus.component.ts\<close> a drop
  from the toolbar creates exactly one node, of the dragged type, and leaves the existing
  objects as they are; each coordinate of its position is the drop coordinate divided by
  20, rounded to the nearest integer (a tie upwards) and multiplied by 20, hence an exact
  multiple of 20 at most 10 away from the drop coordinate. Without a scroll container
  nothing is created. The server-backed copy of the component has no grid: there
  \<^verbatim>\<open>createItemAtPosition\<close> places the node at the drop point moved by (-70, -32).
\<close>

theorem toolbar_drop_snaps_to_grid:
  "(let s' = createNewItemFromToolbar fmt (Some sc) ev lbl ty s;
        new = allocated s;
        p = position (heap s' new);
        d = dropPoint sc ev
    in items s' = items s @ [new] \<and>
       (\<forall>r. r \<noteq> new \<longrightarrow> heap s' r = heap s r) \<and>
       item_type (heap s' new) = ty \<and>
       pos_x p = js_round (fst d / 20) * 20 \<and> pos_y p = js_round (snd d / 20) * 20 \<and>
       multipleOf 20 (pos_x p) \<and> multipleOf 20 (pos_y p) \<and>
       \<bar>pos_x p - fst d\<bar> \<le> 10 \<and> \<bar>pos_y p - snd d\<bar> \<le> 10) \<and>
   createNewItemFromToolbar fmt None ev lbl ty s = s \<and>
   (toolbarDragType s = Some ty \<and> toolbarDragLabel s \<noteq> [] \<longrightarrow>
      posOf (sv_createItemAtPosition fmt cx cy s) (allocated s) = (cx - 70, cy - 32))"
proof -
  have p: "position (heap (createNewItemFromToolbar fmt (Some sc) ev lbl ty s) (allocated s)) =
      \<lparr>pos_x = js_round (fst (dropPoint sc ev) / 20) * 20,
       pos_y = js_round (snd (dropPoint sc ev) / 20) * 20\<rparr>"
    by (rule create_pos)
  have t: "item_type (heap (createNewItemFromToolbar fmt (Some sc) ev lbl ty s) (allocated s)) = ty"
    by (simp add: createNewItemFromToolbar_def Let_def split: option.splits)
  have n: "createNewItemFromToolbar fmt None ev lbl ty s = s"
    by (simp add: createNewItemFromToolbar_def)
  show ?thesis
    unfolding Let_def p
    using create_old [of s fmt sc ev lbl ty] sv_create_pos [of s ty fmt cx cy]
    by (simp add: create_items t n multipleOf_snap snap_nearest)
qed

text \<open>
  A drop of Action 1 at (110, 93) on the empty canvas: the node is created at (120, 100),
  the tie 110/20 = 5.5 going up. The other copy of the component would place it at
  (40, 61).
\<close>

theorem toolbar_drop_snaps_to_grid_witness:
  "toolbarDragType toolbarArmed = Some Action1 \<and> toolbarDragLabel toolbarArmed \<noteq> [] \<and>
   (1 :: nat) \<noteq> allocated toolbarArmed \<and>
   dropPoint examplePage (mouseAt 110 93) = (110, 93) \<and>
   items (createNewItemFromToolbar exampleFmt (Some examplePage) (mouseAt 110 93) ''Action 1'' Action1
            toolbarArmed) = [0] \<and>
   posOf (createNewItemFromToolbar exampleFmt (Some examplePage) (mouseAt 110 93) ''Action 1'' Action1
            toolbarArmed) 0 = (120, 100) \<and>
   heap (createNewItemFromToolbar exampleFmt (Some examplePage) (mouseAt 110 93) ''Action 1'' Action1
            toolbarArmed) 1 = heap toolbarArmed 1 \<and>
   multipleOf 20 (120 :: real) \<and> multipleOf 20 (100 :: real) \<and>
   posOf (sv_createItemAtPosition exampleFmt 110 93 toolbarArmed) 0 = (40, 61)"
proof -
  let ?s' = "createNewItemFromToolbar exampleFmt (Some examplePage) (mouseAt 110 93) ''Action 1'' Action1
            toolbarArmed"
  have h: "toolbarDragType toolbarArmed = Some Action1 \<and> toolbarDragLabel toolbarArmed \<noteq> []"
    by (simp add: toolbarArmed_def onToolbarButtonMouseDown_def Let_def)
  have al: "allocated toolbarArmed = 0"
    by (simp add: toolbarArmed_def onToolbarButtonMouseDown_def Let_def initialWorkstatus_def)
  have it: "items toolbarArmed = []"
    by (simp add: toolbarArmed_def onToolbarButtonMouseDown_def Let_def initialWorkstatus_def)
  have dp: "dropPoint examplePage (mouseAt 110 93) = (110, 93)"
    by (simp add: dropPoint_def examplePage_def mouseAt_def)
  have rx: "js_round (110 / 20) * 20 = 120" and ry: "js_round (93 / 20) * 20 = 100"
    by (simp_all add: js_round_def)
  note t = toolbar_drop_snaps_to_grid [where s = toolbarArmed and fmt = exampleFmt
      and sc = examplePage and ev = "mouseAt 110 93" and lbl = "''Action 1''" and ty = Action1
      and cx = 110 and cy = 93, unfolded Let_def al it dp fst_conv snd_conv rx ry]
  from t have i: "items ?s' = [0]" by simp
  from t have "pos_x (position (heap ?s' 0)) = 120" "pos_y (position (heap ?s' 0)) = 100" by blast+
  then have p: "posOf ?s' 0 = (120, 100)" by (simp add: posOf_def)
  from t have m: "multipleOf 20 (120 :: real)" "multipleOf 20 (100 :: real)" by metis+
  from t have o: "heap ?s' 1 = heap toolbarArmed 1" by simp
  from t h have v: "posOf (sv_createItemAtPosition exampleFmt 110 93 toolbarArmed) 0 = (40, 61)" by simp
  from h al dp i p o m v show ?thesis by simp
qed

text \<open>
  The claim as worded fails in the server-backed copy of the component. A drop of
  Action 1 at (100, 100) inside the canvas creates the node at (30, 68); neither
  coordinate is a multiple of 20.
\<close>

theorem toolbar_drop_counterexample:
  "items (sv_onToolbarDragEnd exampleFmt (Some examplePage) (mouseAt 100 100) toolbarArmed) = [0] \<and>
   posOf (sv_onToolbarDragEnd exampleFmt (Some examplePage) (mouseAt 100 100) toolbarArmed) 0 = (30, 68) \<and>
   \<not> multipleOf 20 (fst (posOf (sv_onToolbarDragEnd exampleFmt (Some examplePage) (mouseAt 100 100)
        toolbarArmed) 0)) \<and>
   \<not> multipleOf 20 (snd (posOf (sv_onToolbarDragEnd exampleFmt (Some examplePage) (mouseAt 100 100)
        toolbarArmed) 0))"
  by (simp add: sv_onToolbarDragEnd_def toolbarArmed_def onToolbarButtonMouseDown_def initialWorkstatus_def
      examplePage_def mouseAt_def sv_createItemAtPosition_def sv_getDefaultProperties_def
      resetToolbarDrag_def updateAllArrows_def posOf_def multipleOf_def Let_def generateDefaultProperties_def)

end
